theory Spec2Isabelle
  imports Main "HOL-Library.Word"
begin

unbundle bit_operations_syntax

section \<open>Machine integers and constants of GLib and GStreamer\<close>

type_synonym guint8 = "8 word"
type_synonym guint32 = "32 word"
type_synonym guint64 = "64 word"

definition G_MAXINT32 :: guint64 where
  "G_MAXINT32 = 0x7fffffff"

definition G_MAXUINT32 :: guint64 where
  "G_MAXUINT32 = 0xffffffff"

text \<open>One millisecond in nanoseconds, the unit of \<open>GstClockTime\<close>.\<close>

definition GST_MSECOND :: guint64 where
  "GST_MSECOND = 1000000"

definition GST_CLOCK_TIME_NONE :: guint64 where
  "GST_CLOCK_TIME_NONE = - 1"

text \<open>The RTMP message types the two elements switch on (they are the FLV tag types).\<close>

definition GST_RTMP_MESSAGE_TYPE_AUDIO :: guint8 where
  "GST_RTMP_MESSAGE_TYPE_AUDIO = 8"

definition GST_RTMP_MESSAGE_TYPE_VIDEO :: guint8 where
  "GST_RTMP_MESSAGE_TYPE_VIDEO = 9"

definition GST_RTMP_MESSAGE_TYPE_DATA_AMF0 :: guint8 where
  "GST_RTMP_MESSAGE_TYPE_DATA_AMF0 = 18"

datatype GstFlowReturn = GST_FLOW_OK | GST_FLOW_EOS | GST_FLOW_FLUSHING | GST_FLOW_ERROR

text \<open>
  A call that parks its thread in \<open>g_cond_wait\<close> has not returned: \<open>Waits\<close> is the
  outcome of one pass over the wait loop whose condition holds, \<open>Returns\<close> the value
  of a call that got past it.
\<close>

datatype 'a blocking = Waits | Returns 'a

section \<open>Buffers, messages and the connection\<close>

text \<open>
  The RTMP meta of a buffer (\<open>GstRtmpMeta\<close>) and the parts of a \<open>GstBuffer\<close> the two
  elements read: the bytes, whether \<open>gst_buffer_map\<close> succeeds, the header flag, the
  decoding timestamp and the meta, \<open>None\<close> where \<open>gst_buffer_get_rtmp_meta\<close>
  returns \<open>NULL\<close>.
\<close>

record GstRtmpMeta =
  meta_cstream :: guint32
  meta_mstream :: guint32
  meta_type :: guint8
  meta_size :: guint32

record GstBuffer =
  buf_data :: "guint8 list"
  buf_mappable :: bool
  buf_flag_header :: bool
  buf_dts :: guint64
  buf_meta :: "GstRtmpMeta option"

definition gst_buffer_map :: "GstBuffer \<Rightarrow> guint8 list option" where
  "gst_buffer_map buffer = (if buf_mappable buffer then Some (buf_data buffer) else None)"

definition gst_buffer_append_region :: "GstBuffer \<Rightarrow> GstBuffer \<Rightarrow> nat \<Rightarrow> nat \<Rightarrow> GstBuffer" where
  "gst_buffer_append_region buf1 buf2 offset sz =
     buf1\<lparr>buf_data := buf_data buf1 @ take sz (drop offset (buf_data buf2))\<rparr>"

definition gst_buffer_prepend_memory :: "GstBuffer \<Rightarrow> guint8 list \<Rightarrow> GstBuffer" where
  "gst_buffer_prepend_memory buffer mem = buffer\<lparr>buf_data := mem @ buf_data buffer\<rparr>"

definition gst_buffer_append_memory :: "GstBuffer \<Rightarrow> guint8 list \<Rightarrow> GstBuffer" where
  "gst_buffer_append_memory buffer mem = buffer\<lparr>buf_data := buf_data buffer @ mem\<rparr>"

text \<open>
  Modelled from the spec: \<open>gst_rtmp_message_new\<close> (rtmp/rtmpmessage.c is not among the
  sources). A Message is a type tag, a chunk-stream id, a message-stream id, a timestamp
  and payload bytes; a new one has no payload and no timestamp yet.
\<close>

definition gst_rtmp_message_new :: "guint8 \<Rightarrow> guint32 \<Rightarrow> guint32 \<Rightarrow> GstBuffer" where
  "gst_rtmp_message_new t cstream mstream =
     \<lparr>buf_data = [], buf_mappable = True, buf_flag_header = False,
      buf_dts = GST_CLOCK_TIME_NONE,
      buf_meta = Some \<lparr>meta_cstream = cstream, meta_mstream = mstream,
                       meta_type = t, meta_size = 0\<rparr>\<rparr>"

text \<open>
  Modelled from the spec: the Connection (rtmp/rtmpconnection.c is not among the
  sources), reduced to its outbound queue of Messages awaiting transmission.
  \<open>gst_rtmp_connection_queue_message\<close> enqueues at the end,
  \<open>gst_rtmp_connection_get_num_queued\<close> is the depth of the queue.
\<close>

record GstRtmpConnection =
  output_queue :: "GstBuffer list"

definition gst_rtmp_connection_queue_message :: "GstRtmpConnection \<Rightarrow> GstBuffer \<Rightarrow> GstRtmpConnection" where
  "gst_rtmp_connection_queue_message connection message =
     connection\<lparr>output_queue := output_queue connection @ [message]\<rparr>"

definition gst_rtmp_connection_get_num_queued :: "GstRtmpConnection \<Rightarrow> nat" where
  "gst_rtmp_connection_get_num_queued connection = length (output_queue connection)"

section \<open>Errors and tasks of GLib\<close>

datatype GQuark = G_IO_ERROR | G_OTHER_DOMAIN string

datatype GIOErrorEnum =
    G_IO_ERROR_FAILED
  | G_IO_ERROR_EXISTS
  | G_IO_ERROR_PERMISSION_DENIED
  | G_IO_ERROR_CONNECTION_REFUSED
  | G_IO_ERROR_CANCELLED
  | G_IO_ERROR_OTHER nat

datatype GError = GError (err_domain: GQuark) (err_code: GIOErrorEnum) (err_message: string)

text \<open>\<open>g_error_matches\<close> is false on a \<open>NULL\<close> error.\<close>

definition g_error_matches :: "GError option \<Rightarrow> GQuark \<Rightarrow> GIOErrorEnum \<Rightarrow> bool" where
  "g_error_matches error d c =
     (case error of None \<Rightarrow> False | Some e \<Rightarrow> err_domain e = d \<and> err_code e = c)"

text \<open>The error that \<open>g_cancellable_set_error_if_cancelled\<close> sets.\<close>

definition cancelled_error :: GError where
  "cancelled_error = GError G_IO_ERROR G_IO_ERROR_CANCELLED ''Operation was cancelled''"

text \<open>
  What a \<open>GTask\<close> was resolved with: \<open>g_task_return_error\<close> and
  \<open>g_task_return_new_error\<close> give \<open>Inl\<close>, \<open>g_task_return_pointer\<close> gives \<open>Inr\<close>.
\<close>

type_synonym task_result = "GError + GstRtmpConnection"

text \<open>
  A \<open>GCancellable\<close> is shared between the element and its task: the identity tells
  which object a pointer refers to, the flag whether it has been cancelled.
\<close>

record GCancellable =
  cancellable_id :: nat
  is_cancelled :: bool

text \<open>
  A completed \<open>GTask\<close>: its cancellable (\<open>None\<close> for \<open>NULL\<close>) and what it was
  resolved with. Both elements create their task with \<open>g_task_new\<close> and never call
  \<open>g_task_set_check_cancellable\<close>, so \<open>g_task_propagate_pointer\<close> looks at the
  cancellable first and reports the cancellation whatever the task was resolved with.
  Its result is the pair of the returned pointer and of \<open>*error\<close>.
\<close>

record GTask =
  task_cancellable :: "GCancellable option"
  task_returned :: task_result

definition g_cancellable_is_cancelled :: "GCancellable option \<Rightarrow> bool" where
  "g_cancellable_is_cancelled c = (case c of None \<Rightarrow> False | Some x \<Rightarrow> is_cancelled x)"

definition g_task_propagate_pointer :: "GTask \<Rightarrow> GstRtmpConnection option \<times> GError option" where
  "g_task_propagate_pointer task =
     (if g_cancellable_is_cancelled (task_cancellable task) then (None, Some cancelled_error)
      else case task_returned task of
             Inl e \<Rightarrow> (None, Some e)
           | Inr connection \<Rightarrow> (Some connection, None))"

text \<open>The errors an element posts on the bus with \<open>GST_ELEMENT_ERROR\<close>.\<close>

datatype element_error =
    RESOURCE_NOT_AUTHORIZED
  | RESOURCE_OPEN_READ
  | RESOURCE_FAILED
  | RESOURCE_WRITE

section \<open>The sink (gstrtmp2sink.c)\<close>

text \<open>
  The fields of \<open>struct _GstRtmp2Sink\<close> that the modelled functions touch, with the
  prefix \<open>sink_\<close> (the source element has fields of the same names). \<open>sink_connect_task\<close>
  tells whether \<open>connect_task\<close> is set, \<open>sink_errors\<close> collects the element errors
  posted so far.
\<close>

record GstRtmp2Sink =
  sink_running :: bool
  sink_flushing :: bool
  sink_headers :: "GstBuffer list"
  sink_last_ts :: guint64
  sink_base_ts :: guint64
  sink_connect_task :: bool
  sink_connection :: "GstRtmpConnection option"
  sink_errors :: "element_error list"

definition GST_READ_UINT24_BE :: "guint8 list \<Rightarrow> nat \<Rightarrow> guint32" where
  "GST_READ_UINT24_BE d i =
     push_bit 16 (ucast (d ! i)) OR push_bit 8 (ucast (d ! (i + 1))) OR ucast (d ! (i + 2))"

text \<open>
  The 32-bit timestamp of an FLV tag as \<open>buffer_to_message\<close> reads it into its
  \<open>guint64\<close> local: three bytes at offset 4, most significant first, and the
  extension byte at offset 7 as bits 24 to 31.
\<close>

definition read_timestamp :: "guint8 list \<Rightarrow> guint64" where
  "read_timestamp info =
     ucast (GST_READ_UINT24_BE info 4) OR ucast (push_bit 24 (ucast (info ! 7) :: guint32))"

text \<open>What \<open>gst_rtmp2_sink_start\<close> sets before it starts the task.\<close>

definition gst_rtmp2_sink_start :: "GstRtmp2Sink \<Rightarrow> GstRtmp2Sink" where
  "gst_rtmp2_sink_start self = self\<lparr>sink_running := True, sink_last_ts := 0, sink_base_ts := 0\<rparr>"

text \<open>
  The block of \<open>buffer_to_message\<close> under the comment "flvmux timestamps roll over
  after about 49 days". The local \<open>timestamp\<close> and the fields \<open>base_ts\<close> and \<open>last_ts\<close>
  are \<open>guint64\<close>, so every sum and comparison is taken modulo \<open>2 ^ 64\<close>. The result is
  \<open>timestamp\<close> after \<open>timestamp += self->base_ts\<close>, and the sink with the new
  \<open>base_ts\<close> and \<open>last_ts\<close>.
\<close>

definition fixup_timestamp :: "guint64 \<Rightarrow> 'a GstRtmp2Sink_scheme \<Rightarrow> guint64 \<times> 'a GstRtmp2Sink_scheme" where
  "fixup_timestamp timestamp self =
     (let (timestamp1, base1) =
            (if timestamp + sink_base_ts self + G_MAXINT32 < sink_last_ts self
             then (timestamp, sink_base_ts self + G_MAXUINT32 + 1)
             else if timestamp + sink_base_ts self > sink_last_ts self + G_MAXINT32
             then (if sink_base_ts self > 0
                   then (timestamp, sink_base_ts self - G_MAXUINT32 - 1)
                   else (0, sink_base_ts self))
             else (timestamp, sink_base_ts self));
          timestamp2 = timestamp1 + base1
      in (timestamp2, self\<lparr>sink_base_ts := base1, sink_last_ts := timestamp2\<rparr>))"

text \<open>The bytes of \<open>"FLV"\<close> and the \<open>@setDataFrame\<close> header of the source.\<close>

definition flv_signature :: "guint8 list" where
  "flv_signature = [0x46, 0x4c, 0x56]"

definition set_data_frame_header :: "guint8 list" where
  "set_data_frame_header =
     [0x02, 0x00, 0x0d, 0x40, 0x73, 0x65, 0x74, 0x44,
      0x61, 0x74, 0x61, 0x46, 0x72, 0x61, 0x6d, 0x65]"

text \<open>
  \<open>buffer_to_message\<close> returns \<open>FALSE\<close>, or \<open>TRUE\<close> with \<open>*outbuf\<close> either \<open>NULL\<close>
  or the message. The reads at offsets 0 and 4 to 7 come after the size check, so they
  are within the mapped bytes.
\<close>

datatype b2m_result = B2M_FALSE | B2M_TRUE "GstBuffer option"

definition buffer_to_message :: "GstRtmp2Sink \<Rightarrow> GstBuffer \<Rightarrow> b2m_result \<times> GstRtmp2Sink" where
  "buffer_to_message self buffer =
     (case gst_buffer_map buffer of
        None \<Rightarrow> (B2M_FALSE, self)
      | Some info \<Rightarrow>
          if length info \<ge> 4 \<and> take 3 info = flv_signature then (B2M_TRUE None, self)
          else if length info < 11 + 4 then (B2M_FALSE, self)
          else
            let payload_offset = 11;
                payload_size = length info - 11 - 4;
                t = info ! 0;
                (timestamp, self1) = fixup_timestamp (read_timestamp info) self
            in if t \<noteq> GST_RTMP_MESSAGE_TYPE_DATA_AMF0 \<and> t \<noteq> GST_RTMP_MESSAGE_TYPE_AUDIO
                  \<and> t \<noteq> GST_RTMP_MESSAGE_TYPE_VIDEO
               then (B2M_FALSE, self1)
               else
                 let cstream = (if t = GST_RTMP_MESSAGE_TYPE_DATA_AMF0 then 4
                                else if t = GST_RTMP_MESSAGE_TYPE_AUDIO then 5 else 6);
                     message0 = gst_rtmp_message_new t cstream 1;
                     message1 = gst_buffer_append_region message0 buffer payload_offset payload_size;
                     message2 = message1\<lparr>buf_dts := timestamp * GST_MSECOND\<rparr>;
                     message = (if t = GST_RTMP_MESSAGE_TYPE_DATA_AMF0
                                then gst_buffer_prepend_memory message2 set_data_frame_header
                                else message2)
                 in (B2M_TRUE (Some message), self1))"

definition should_drop_header :: "GstRtmp2Sink \<Rightarrow> GstBuffer \<Rightarrow> bool" where
  "should_drop_header self buffer =
     (if \<not> buf_flag_header buffer then False else length (sink_headers self) > 0)"

text \<open>
  \<open>send_streamheader\<close> queues the collected stream headers on \<open>self->connection\<close>
  in order and empties the array. Its only caller has checked that the connection is set.
\<close>

definition send_streamheader :: "GstRtmp2Sink \<Rightarrow> GstRtmp2Sink" where
  "send_streamheader self =
     (if length (sink_headers self) = 0 then self
      else self\<lparr>sink_connection :=
                    map_option (\<lambda>c. foldl gst_rtmp_connection_queue_message c (sink_headers self))
                      (sink_connection self),
                sink_headers := []\<rparr>)"

definition queue_too_deep :: "GstRtmp2Sink \<Rightarrow> bool" where
  "queue_too_deep self =
     (case sink_connection self of
        None \<Rightarrow> False
      | Some connection \<Rightarrow> gst_rtmp_connection_get_num_queued connection > 3)"

definition send_message :: "GstRtmp2Sink \<Rightarrow> GstBuffer \<Rightarrow> GstFlowReturn blocking \<times> GstRtmp2Sink" where
  "send_message self message =
     (if \<not> sink_flushing self \<and> sink_connection self = None \<and> sink_connect_task self
      then (Waits, self)
      else if \<not> sink_flushing self \<and> queue_too_deep self
      then (Waits, self)
      else if sink_flushing self then (Returns GST_FLOW_FLUSHING, self)
      else if sink_connection self = None then (Returns GST_FLOW_ERROR, self)
      else
        let self1 = send_streamheader self
        in (Returns GST_FLOW_OK,
            self1\<lparr>sink_connection :=
                    map_option (\<lambda>c. gst_rtmp_connection_queue_message c message)
                      (sink_connection self1)\<rparr>))"

definition gst_rtmp2_sink_render :: "GstRtmp2Sink \<Rightarrow> GstBuffer \<Rightarrow> GstFlowReturn blocking \<times> GstRtmp2Sink" where
  "gst_rtmp2_sink_render self buffer =
     (if should_drop_header self buffer then (Returns GST_FLOW_OK, self)
      else case buffer_to_message self buffer of
             (B2M_FALSE, self1) \<Rightarrow> (Returns GST_FLOW_ERROR, self1)
           | (B2M_TRUE None, self1) \<Rightarrow> (Returns GST_FLOW_OK, self1)
           | (B2M_TRUE (Some message), self1) \<Rightarrow> send_message self1 message)"





text \<open>
  A new sink: GObject hands out zeroed instance memory and \<open>gst_rtmp2_sink_init\<close>
  allocates the empty array of stream headers.
\<close>

definition gst_rtmp2_sink_init :: GstRtmp2Sink where
  "gst_rtmp2_sink_init =
     \<lparr>sink_running = False, sink_flushing = False, sink_headers = [],
      sink_last_ts = 0, sink_base_ts = 0, sink_connect_task = False,
      sink_connection = None, sink_errors = []\<rparr>"

text \<open>
  The corrected timestamps of a run of 32-bit timestamps: each goes through the fixup
  in turn, on the sink the previous one left.
\<close>

fun fixup_all :: "GstRtmp2Sink \<Rightarrow> guint32 list \<Rightarrow> guint64 list" where
  "fixup_all self [] = []"
| "fixup_all self (ts # rest) =
     (case fixup_timestamp (ucast ts) self of
        (timestamp, self1) \<Rightarrow> timestamp # fixup_all self1 rest)"

text \<open>
  A timeline of true timestamps in milliseconds: each is at least the one before, less
  than \<open>2 ^ 31\<close> after it, and below \<open>2 ^ 63\<close>.
\<close>

fun small_steps :: "nat \<Rightarrow> nat list \<Rightarrow> bool" where
  "small_steps prev [] = True"
| "small_steps prev (T # Ts) =
     (prev \<le> T \<and> T - prev < 2 ^ 31 \<and> T < 2 ^ 63 \<and> small_steps T Ts)"

text \<open>
  \<open>connect_task_done\<close> of the sink: it clears \<open>connect_task\<close>, takes the connection
  or the error out of the task and, without a connection, posts the element error that
  goes with the error, none for a cancellation.
\<close>

definition sink_connect_task_done :: "GstRtmp2Sink \<Rightarrow> GTask \<Rightarrow> GstRtmp2Sink" where
  "sink_connect_task_done rtmp2sink task =
     (let (connection, error) = g_task_propagate_pointer task;
          self1 = rtmp2sink\<lparr>sink_connect_task := False, sink_connection := connection\<rparr>
      in if connection \<noteq> None then self1
         else if g_error_matches error G_IO_ERROR G_IO_ERROR_PERMISSION_DENIED
         then self1\<lparr>sink_errors := sink_errors self1 @ [RESOURCE_NOT_AUTHORIZED]\<rparr>
         else if g_error_matches error G_IO_ERROR G_IO_ERROR_CONNECTION_REFUSED
         then self1\<lparr>sink_errors := sink_errors self1 @ [RESOURCE_OPEN_READ]\<rparr>
         else if \<not> g_error_matches error G_IO_ERROR G_IO_ERROR_CANCELLED
         then self1\<lparr>sink_errors := sink_errors self1 @ [RESOURCE_FAILED]\<rparr>
         else self1)"

subsection \<open>The publish sequence\<close>

text \<open>
  Modelled from the spec: the AMF nodes of command arguments (rtmp/amf.c is not among the
  sources), a self-describing object notation. \<open>gst_amf_node_get_field\<close> looks a
  field of an object up by name and returns \<open>NULL\<close> where the object has none;
  \<open>gst_amf_node_peek_string\<close> gives the string of a string node and \<open>NULL\<close> for an
  invalid (non-string) node.
\<close>

datatype GstAmfType =
    GST_AMF_TYPE_INVALID
  | GST_AMF_TYPE_NUMBER
  | GST_AMF_TYPE_BOOLEAN
  | GST_AMF_TYPE_STRING
  | GST_AMF_TYPE_OBJECT
  | GST_AMF_TYPE_NULL

datatype GstAmfNode =
    AmfNumber int
  | AmfBoolean bool
  | AmfString string
  | AmfObject "(string \<times> GstAmfNode) list"
  | AmfNull

fun gst_amf_node_get_type :: "GstAmfNode \<Rightarrow> GstAmfType" where
  "gst_amf_node_get_type (AmfNumber _) = GST_AMF_TYPE_NUMBER"
| "gst_amf_node_get_type (AmfBoolean _) = GST_AMF_TYPE_BOOLEAN"
| "gst_amf_node_get_type (AmfString _) = GST_AMF_TYPE_STRING"
| "gst_amf_node_get_type (AmfObject _) = GST_AMF_TYPE_OBJECT"
| "gst_amf_node_get_type AmfNull = GST_AMF_TYPE_NULL"

fun gst_amf_node_get_field :: "GstAmfNode \<Rightarrow> string \<Rightarrow> GstAmfNode option" where
  "gst_amf_node_get_field (AmfObject members) name = map_of members name"
| "gst_amf_node_get_field _ name = None"

fun gst_amf_node_peek_string :: "GstAmfNode \<Rightarrow> string option" where
  "gst_amf_node_peek_string (AmfString s) = Some s"
| "gst_amf_node_peek_string _ = None"

text \<open>
  \<open>g_str_equal\<close> of GLib compares with \<open>strcmp\<close> and checks neither pointer: on a
  \<open>NULL\<close> first argument the process reads through the null pointer.
\<close>

datatype fault = NullPointerDereference

definition g_str_equal :: "string option \<Rightarrow> string \<Rightarrow> fault + bool" where
  "g_str_equal v1 v2 = (case v1 of None \<Rightarrow> Inl NullPointerDereference | Some s \<Rightarrow> Inr (s = v2))"

definition GST_STR_NULL :: "string option \<Rightarrow> string" where
  "GST_STR_NULL str = (case str of None \<Rightarrow> ''(NULL)'' | Some s \<Rightarrow> s)"

text \<open>
  The callbacks of the publish sequence either resolve the task or send the next
  command. \<open>cancelled\<close> is the state of the task's cancellable when the callback runs
  (\<open>g_task_return_error_if_cancelled\<close>), \<open>finish\<close> what
  \<open>gst_rtmp_client_connect_finish\<close> gave, \<open>args\<close> the arguments of the reply,
  \<open>None\<close> for \<open>NULL\<close>.
\<close>

datatype sink_step = TaskReturn task_result | SendCreateStream | SendPublish

definition sink_client_connect_done :: "GError + GstRtmpConnection \<Rightarrow> bool \<Rightarrow> sink_step" where
  "sink_client_connect_done finish cancelled =
     (case finish of
        Inl error \<Rightarrow> TaskReturn (Inl error)
      | Inr connection \<Rightarrow>
          if cancelled then TaskReturn (Inl cancelled_error) else SendCreateStream)"

definition create_stream_done :: "bool \<Rightarrow> GstAmfNode list option \<Rightarrow> sink_step" where
  "create_stream_done cancelled args =
     (if cancelled then TaskReturn (Inl cancelled_error)
      else case args of
        None \<Rightarrow> TaskReturn (Inl (GError G_IO_ERROR G_IO_ERROR_FAILED ''createStream failed''))
      | Some a \<Rightarrow>
          if length a < 2
          then TaskReturn (Inl (GError G_IO_ERROR G_IO_ERROR_FAILED ''createStream failed''))
          else if cancelled then TaskReturn (Inl cancelled_error)
          else SendPublish)"

text \<open>How \<open>%s\<close> prints its argument in the messages of the errors.\<close>

definition printf_s :: "string option \<Rightarrow> string" where
  "printf_s str = (case str of None \<Rightarrow> ''(null)'' | Some s \<Rightarrow> s)"

text \<open>
  The \<open>GST_AMF_TYPE_OBJECT\<close> case of the switch of \<open>publish_done\<close>: the chain of
  comparisons of \<open>code\<close>, each a call of \<open>g_str_equal\<close>.
\<close>

definition publish_status :: "GstRtmpConnection \<Rightarrow> GstAmfNode \<Rightarrow> fault + task_result" where
  "publish_status connection optional_args =
     (let node = gst_amf_node_get_field optional_args ''code'';
          code = (case node of None \<Rightarrow> None | Some n \<Rightarrow> gst_amf_node_peek_string n)
      in case g_str_equal code ''NetStream.Publish.Start'' of
           Inl f \<Rightarrow> Inl f
         | Inr True \<Rightarrow> Inr (Inr connection)
         | Inr False \<Rightarrow>
            (case g_str_equal code ''NetStream.Publish.BadName'' of
               Inl f \<Rightarrow> Inl f
             | Inr True \<Rightarrow>
                 Inr (Inl (GError G_IO_ERROR G_IO_ERROR_EXISTS
                             (''Stream already exists! ('' @ printf_s code @ '')'')))
             | Inr False \<Rightarrow>
                (case g_str_equal code ''NetStream.Publish.Denied'' of
                   Inl f \<Rightarrow> Inl f
                 | Inr True \<Rightarrow>
                     Inr (Inl (GError G_IO_ERROR G_IO_ERROR_PERMISSION_DENIED
                                 (''Publish denied! ('' @ printf_s code @ '')'')))
                 | Inr False \<Rightarrow>
                     Inr (Inl (GError G_IO_ERROR G_IO_ERROR_FAILED
                                 (''unhandled publish result code: '' @ GST_STR_NULL code))))))"

definition publish_done :: "bool \<Rightarrow> GstRtmpConnection \<Rightarrow> GstAmfNode list option \<Rightarrow> fault + task_result" where
  "publish_done cancelled connection args =
     (if cancelled then Inr (Inl cancelled_error)
      else case args of
        None \<Rightarrow> Inr (Inl (GError G_IO_ERROR G_IO_ERROR_FAILED ''publish failed''))
      | Some a \<Rightarrow>
          if length a < 1
          then Inr (Inl (GError G_IO_ERROR G_IO_ERROR_FAILED ''publish failed''))
          else
            let optional_args_type =
                  (if length a > 1 then gst_amf_node_get_type (a ! 1) else GST_AMF_TYPE_INVALID)
            in if optional_args_type = GST_AMF_TYPE_OBJECT
               then publish_status connection (a ! 1)
               else Inr (Inl (GError G_IO_ERROR G_IO_ERROR_FAILED ''publish failed'')))"

section \<open>The source (gstrtmp2src.c)\<close>

text \<open>
  The fields of \<open>GstRtmp2Src\<close> that the modelled functions touch, with the prefix
  \<open>src_\<close>. \<open>src_message\<close> is the one-place slot between \<open>got_message\<close> and
  \<open>gst_rtmp2_src_create\<close>, \<open>src_errors\<close> collects the element errors posted so far.
\<close>

record GstRtmp2Src =
  src_running :: bool
  src_flushing :: bool
  src_cancellable :: "GCancellable option"
  src_connection :: "GstRtmpConnection option"
  src_stream_id :: guint32
  src_message :: "GstBuffer option"
  src_sent_header :: bool
  src_last_ts :: guint64
  src_errors :: "element_error list"

text \<open>A new source: zeroed instance memory, as \<open>gst_rtmp2_src_init\<close> leaves it.\<close>

definition gst_rtmp2_src_init :: GstRtmp2Src where
  "gst_rtmp2_src_init =
     \<lparr>src_running = False, src_flushing = False, src_cancellable = None,
      src_connection = None, src_stream_id = 0, src_message = None,
      src_sent_header = False, src_last_ts = 0, src_errors = []\<rparr>"

text \<open>
  \<open>gst_rtmp2_src_start\<close>; \<open>fresh\<close> is the identity of the cancellable that
  \<open>g_cancellable_new\<close> allocates.
\<close>

definition gst_rtmp2_src_start :: "nat \<Rightarrow> GstRtmp2Src \<Rightarrow> GstRtmp2Src" where
  "gst_rtmp2_src_start fresh self =
     self\<lparr>src_running := True,
          src_cancellable := Some \<lparr>cancellable_id = fresh, is_cancelled = False\<rparr>,
          src_stream_id := 0,
          src_sent_header := False,
          src_last_ts := GST_CLOCK_TIME_NONE\<rparr>"

text \<open>
  \<open>stop_task\<close> clears \<open>running\<close> and cancels the cancellable the element still
  holds. Stopping the \<open>GstTask\<close>, quitting the main loop and the broadcast on the
  condition have no field here.
\<close>

definition stop_task :: "GstRtmp2Src \<Rightarrow> GstRtmp2Src" where
  "stop_task self =
     self\<lparr>src_running := False,
          src_cancellable := map_option (\<lambda>c. c\<lparr>is_cancelled := True\<rparr>) (src_cancellable self)\<rparr>"

definition flv_header_data :: "guint8 list" where
  "flv_header_data =
     [0x46, 0x4c, 0x56, 0x01, 0x01, 0x00, 0x00, 0x00,
      0x09, 0x00, 0x00, 0x00, 0x00]"

definition GST_WRITE_UINT24_BE :: "guint32 \<Rightarrow> guint8 list" where
  "GST_WRITE_UINT24_BE v = [ucast (drop_bit 16 v), ucast (drop_bit 8 v), ucast v]"

definition GST_WRITE_UINT32_BE :: "guint32 \<Rightarrow> guint8 list" where
  "GST_WRITE_UINT32_BE v =
     [ucast (drop_bit 24 v), ucast (drop_bit 16 v), ucast (drop_bit 8 v), ucast v]"

text \<open>
  The timestamp in milliseconds that \<open>gst_rtmp2_src_create\<close> writes into the tag: the
  DTS of the message divided by \<open>GST_MSECOND\<close> and cut to 32 bits, or 0 without a DTS.
\<close>

definition tag_timestamp :: "GstBuffer \<Rightarrow> guint32" where
  "tag_timestamp message =
     (if buf_dts message \<noteq> GST_CLOCK_TIME_NONE then ucast (buf_dts message div GST_MSECOND)
      else 0)"

text \<open>The 11 bytes of the tag header and the 4 bytes of the tag footer.\<close>

definition tag_header :: "GstRtmpMeta \<Rightarrow> guint32 \<Rightarrow> guint8 list" where
  "tag_header meta timestamp =
     [meta_type meta] @ GST_WRITE_UINT24_BE (meta_size meta) @ GST_WRITE_UINT24_BE timestamp
       @ [ucast (drop_bit 24 timestamp)] @ GST_WRITE_UINT24_BE 0"

definition tag_footer :: "GstRtmpMeta \<Rightarrow> guint8 list" where
  "tag_footer meta = GST_WRITE_UINT32_BE (meta_size meta + 11)"

text \<open>
  \<open>gst_buffer_copy_region\<close> with \<open>GST_BUFFER_COPY_MEMORY\<close> over the whole buffer: a
  new buffer with the bytes only.
\<close>

definition gst_buffer_copy_memory :: "GstBuffer \<Rightarrow> GstBuffer" where
  "gst_buffer_copy_memory message =
     \<lparr>buf_data = buf_data message, buf_mappable = True, buf_flag_header = False,
      buf_dts = GST_CLOCK_TIME_NONE, buf_meta = None\<rparr>"

text \<open>
  \<open>gst_rtmp2_src_create\<close> returns the flow, \<open>*outbuf\<close> where it set it, and the
  element. Without a pending message it returns on \<open>!running\<close> and on \<open>flushing\<close>
  and waits otherwise. It takes the message out of the slot before it looks at the meta,
  so a message without meta is lost with \<open>GST_FLOW_ERROR\<close>.
\<close>

definition gst_rtmp2_src_create :: "GstRtmp2Src \<Rightarrow> GstFlowReturn blocking \<times> GstBuffer option \<times> GstRtmp2Src" where
  "gst_rtmp2_src_create self =
     (case src_message self of
        None \<Rightarrow>
          if \<not> src_running self then (Returns GST_FLOW_EOS, None, self)
          else if src_flushing self then (Returns GST_FLOW_FLUSHING, None, self)
          else (Waits, None, self)
      | Some message \<Rightarrow>
          let self1 = self\<lparr>src_message := None\<rparr>
          in case buf_meta message of
               None \<Rightarrow> (Returns GST_FLOW_ERROR, None, self1)
             | Some meta \<Rightarrow>
                 let self2 = (if buf_dts message \<noteq> GST_CLOCK_TIME_NONE
                              then self1\<lparr>src_last_ts := buf_dts message\<rparr> else self1);
                     timestamp = tag_timestamp message;
                     buffer0 = gst_buffer_copy_memory message;
                     buffer1 = gst_buffer_prepend_memory buffer0 (tag_header meta timestamp);
                     buffer2 = gst_buffer_append_memory buffer1 (tag_footer meta)
                 in if \<not> src_sent_header self2
                    then (Returns GST_FLOW_OK,
                          Some (gst_buffer_prepend_memory buffer2 flv_header_data),
                          self2\<lparr>src_sent_header := True\<rparr>)
                    else (Returns GST_FLOW_OK, Some buffer2, self2))"

text \<open>
  \<open>got_message\<close>, the input handler of the connection. It returns without a value;
  the outcome tells by which path: the failed \<open>g_return_if_fail\<close>, one of the
  "Ignoring" returns, the jump to \<open>out\<close> of an element that stopped, or the hand-over
  into the slot. With the slot taken and the element running it waits.
\<close>

datatype got_message_outcome = NoMeta | Ignored | Stopped | HandedOver

text \<open>
  The switch of \<open>got_message\<close> over \<open>meta->type\<close>: the least size of a video, an
  audio and a data message, \<open>None\<close> in the default case ("wrong type").
\<close>

definition min_size_of_type :: "guint8 \<Rightarrow> guint32 option" where
  "min_size_of_type t =
     (if t = GST_RTMP_MESSAGE_TYPE_VIDEO then Some 6
      else if t = GST_RTMP_MESSAGE_TYPE_AUDIO then Some 2
      else if t = GST_RTMP_MESSAGE_TYPE_DATA_AMF0 then Some 1
      else None)"

definition got_message :: "GstRtmp2Src \<Rightarrow> GstBuffer \<Rightarrow> got_message_outcome blocking \<times> GstRtmp2Src" where
  "got_message self buffer =
     (case buf_meta buffer of
        None \<Rightarrow> (Returns NoMeta, self)
      | Some meta \<Rightarrow>
          if meta_mstream meta \<noteq> src_stream_id self then (Returns Ignored, self)
          else case min_size_of_type (meta_type meta) of
            None \<Rightarrow> (Returns Ignored, self)
          | Some min_size \<Rightarrow>
              if meta_size meta < min_size then (Returns Ignored, self)
              else case src_message self of
                     Some pending \<Rightarrow>
                       if \<not> src_running self then (Returns Stopped, self) else (Waits, self)
                   | None \<Rightarrow> (Returns HandedOver, self\<lparr>src_message := Some buffer\<rparr>))"

text \<open>
  The callbacks of the play sequence. \<open>start_play_done\<close> stores the stream id that
  \<open>gst_rtmp_client_start_play_finish\<close> assigned (\<open>play_finish\<close>, \<open>Inl\<close> where it
  failed) and resolves the task.
\<close>

datatype src_step = SrcTaskReturn task_result | StartPlay

definition src_client_connect_done :: "GError + GstRtmpConnection \<Rightarrow> bool \<Rightarrow> src_step" where
  "src_client_connect_done finish cancelled =
     (case finish of
        Inl error \<Rightarrow> SrcTaskReturn (Inl error)
      | Inr connection \<Rightarrow>
          if cancelled then SrcTaskReturn (Inl cancelled_error) else StartPlay)"

definition start_play_done :: "GstRtmp2Src \<Rightarrow> bool \<Rightarrow> GstRtmpConnection \<Rightarrow> GError + guint32 \<Rightarrow> task_result \<times> GstRtmp2Src" where
  "start_play_done self cancelled connection play_finish =
     (if cancelled then (Inl cancelled_error, self)
      else case play_finish of
             Inr stream_id \<Rightarrow> (Inr connection, self\<lparr>src_stream_id := stream_id\<rparr>)
           | Inl error \<Rightarrow> (Inl error, self))"

definition send_connect_error :: "GstRtmp2Src \<Rightarrow> GError option \<Rightarrow> GstRtmp2Src" where
  "send_connect_error self error =
     (if error = None then self\<lparr>src_errors := src_errors self @ [RESOURCE_FAILED]\<rparr>
      else if g_error_matches error G_IO_ERROR G_IO_ERROR_CANCELLED then self
      else if g_error_matches error G_IO_ERROR G_IO_ERROR_PERMISSION_DENIED
      then self\<lparr>src_errors := src_errors self @ [RESOURCE_NOT_AUTHORIZED]\<rparr>
      else if g_error_matches error G_IO_ERROR G_IO_ERROR_CONNECTION_REFUSED
      then self\<lparr>src_errors := src_errors self @ [RESOURCE_OPEN_READ]\<rparr>
      else self\<lparr>src_errors := src_errors self @ [RESOURCE_FAILED]\<rparr>)"

text \<open>
  \<open>connect_task_done\<close> of the source. The comparison
  \<open>self->cancellable == g_task_get_cancellable (task)\<close> is one of pointers: of the
  identities, with \<open>NULL\<close> equal to \<open>NULL\<close> only.
\<close>

definition same_cancellable :: "GCancellable option \<Rightarrow> GCancellable option \<Rightarrow> bool" where
  "same_cancellable a b = (map_option cancellable_id a = map_option cancellable_id b)"

definition src_connect_task_done :: "GstRtmp2Src \<Rightarrow> GTask \<Rightarrow> GstRtmp2Src" where
  "src_connect_task_done self task =
     (let self1 = (if same_cancellable (src_cancellable self) (task_cancellable task)
                   then self\<lparr>src_cancellable := None\<rparr> else self);
          (connection, error) = g_task_propagate_pointer task;
          self2 = self1\<lparr>src_connection := connection\<rparr>
      in if connection \<noteq> None then self2
         else stop_task (send_connect_error self2 error))"

text \<open>
  A run of the play path over the inbound messages of the connection: each goes through
  \<open>got_message\<close>, and a message handed over is taken by the next
  \<open>gst_rtmp2_src_create\<close>. The result is the buffers given to the host, in order.
\<close>

fun play_all :: "GstRtmp2Src \<Rightarrow> GstBuffer list \<Rightarrow> GstBuffer list" where
  "play_all self [] = []"
| "play_all self (buffer # rest) =
     (case got_message self buffer of
        (Returns HandedOver, self1) \<Rightarrow>
          (case gst_rtmp2_src_create self1 of
             (Returns GST_FLOW_OK, Some outbuf, self2) \<Rightarrow> outbuf # play_all self2 rest
           | (_, _, self2) \<Rightarrow> play_all self2 rest)
      | (_, self1) \<Rightarrow> play_all self1 rest)"

text \<open>The tag that \<open>gst_rtmp2_src_create\<close> wraps a message in, without the FLV header.\<close>

definition flv_tag :: "GstBuffer \<Rightarrow> guint8 list" where
  "flv_tag message =
     (case buf_meta message of
        None \<Rightarrow> []
      | Some meta \<Rightarrow>
          tag_header meta (tag_timestamp message) @ buf_data message @ tag_footer meta)"

section \<open>Example inputs\<close>

text \<open>The 13 bytes that flvmux sends first, and the start of a tag cut short.\<close>

definition flv_header_buffer :: GstBuffer where
  "flv_header_buffer =
     \<lparr>buf_data = [0x46, 0x4c, 0x56, 0x01, 0x05, 0x00, 0x00, 0x00, 0x09, 0x00, 0x00, 0x00, 0x00],
      buf_mappable = True, buf_flag_header = False, buf_dts = 0, buf_meta = None\<rparr>"

definition short_buffer :: "bool \<Rightarrow> GstBuffer" where
  "short_buffer header =
     \<lparr>buf_data = [0x09], buf_mappable = True, buf_flag_header = header,
      buf_dts = GST_CLOCK_TIME_NONE, buf_meta = None\<rparr>"

text \<open>
  A script-data tag with the one payload byte \<open>0xAA\<close>, and a video tag with the
  timestamp 10240 and the two payload bytes \<open>0x17\<close>, \<open>0x01\<close>.
\<close>

definition script_tag_buffer :: GstBuffer where
  "script_tag_buffer =
     \<lparr>buf_data = [0x12, 0x00, 0x00, 0x01, 0x00, 0x00, 0x00, 0x00, 0x00, 0x00, 0x00,
                  0xAA, 0x00, 0x00, 0x00, 0x0c],
      buf_mappable = True, buf_flag_header = False,
      buf_dts = GST_CLOCK_TIME_NONE, buf_meta = None\<rparr>"

definition video_tag_buffer :: GstBuffer where
  "video_tag_buffer =
     \<lparr>buf_data = [0x09, 0x00, 0x00, 0x02, 0x00, 0x28, 0x00, 0x00, 0x00, 0x00, 0x00,
                  0x17, 0x01, 0x00, 0x00, 0x00, 0x0d],
      buf_mappable = True, buf_flag_header = False,
      buf_dts = GST_CLOCK_TIME_NONE, buf_meta = None\<rparr>"



text \<open>A connection with nothing queued, and the arguments of an \<open>onStatus\<close> reply.\<close>

definition live_connection :: GstRtmpConnection where
  "live_connection = \<lparr>output_queue = []\<rparr>"

definition status_reply :: "string \<Rightarrow> GstAmfNode list" where
  "status_reply code =
     [AmfNull, AmfObject [(''level'', AmfString ''status''), (''code'', AmfString code)]]"

text \<open>A task that failed with a refused connection and whose cancellable was cancelled.\<close>

definition cancelled_task :: GTask where
  "cancelled_task =
     \<lparr>task_cancellable = Some \<lparr>cancellable_id = 0, is_cancelled = True\<rparr>,
      task_returned = Inl (GError G_IO_ERROR G_IO_ERROR_CONNECTION_REFUSED ''Connection refused'')\<rparr>"

text \<open>An inbound audio message of three bytes at 40 ms on the given message stream.\<close>

definition audio_message :: "guint32 \<Rightarrow> GstBuffer" where
  "audio_message mstream =
     \<lparr>buf_data = [0xaf, 0x01, 0x21], buf_mappable = True, buf_flag_header = False,
      buf_dts = 40 * GST_MSECOND,
      buf_meta = Some \<lparr>meta_cstream = 5, meta_mstream = mstream,
                       meta_type = GST_RTMP_MESSAGE_TYPE_AUDIO, meta_size = 3\<rparr>\<rparr>"

section \<open>The timestamp fixup of the sink\<close>

lemma unat_of_nat64: "n < 2 ^ 64 \<Longrightarrow> unat (of_nat n :: guint64) = n"
  by (simp add: unat_of_nat)

lemma fixup_none:
  fixes self :: "'a GstRtmp2Sink_scheme"
  assumes "\<not> timestamp + sink_base_ts self + G_MAXINT32 < sink_last_ts self"
    and "\<not> timestamp + sink_base_ts self > sink_last_ts self + G_MAXINT32"
  shows "fixup_timestamp timestamp self =
           (timestamp + sink_base_ts self,
            self\<lparr>sink_base_ts := sink_base_ts self,
                 sink_last_ts := timestamp + sink_base_ts self\<rparr>)"
  using assms by (simp add: fixup_timestamp_def Let_def)

lemma fixup_wrap:
  fixes self :: "'a GstRtmp2Sink_scheme"
  assumes "timestamp + sink_base_ts self + G_MAXINT32 < sink_last_ts self"
  shows "fixup_timestamp timestamp self =
           (timestamp + (sink_base_ts self + G_MAXUINT32 + 1),
            self\<lparr>sink_base_ts := sink_base_ts self + G_MAXUINT32 + 1,
                 sink_last_ts := timestamp + (sink_base_ts self + G_MAXUINT32 + 1)\<rparr>)"
  using assms by (simp add: fixup_timestamp_def Let_def)

lemma epoch_cases:
  fixes prev T :: nat
  assumes "prev \<le> T" "T - prev < 2 ^ 31"
  shows "(T div 2 ^ 32 = prev div 2 ^ 32 \<and> prev mod 2 ^ 32 \<le> T mod 2 ^ 32 \<and> T mod 2 ^ 32 - prev mod 2 ^ 32 < 2 ^ 31)
       \<or> (T div 2 ^ 32 = prev div 2 ^ 32 + 1 \<and> T mod 2 ^ 32 + 2 ^ 32 - prev mod 2 ^ 32 < 2 ^ 31)"
proof -
  define q r q' r' where "q = prev div 2 ^ 32" and "r = prev mod 2 ^ 32"
    and "q' = T div 2 ^ 32" and "r' = T mod 2 ^ 32"
  note defs = q_def r_def q'_def r'_def
  have p: "prev = q * 2 ^ 32 + r" and t: "T = q' * 2 ^ 32 + r'"
    by (simp_all add: defs)
  have r: "r < 2 ^ 32" and r': "r' < 2 ^ 32"
    by (simp_all add: defs)
  have "q \<le> q'" using assms(1) by (simp add: defs div_le_mono)
  moreover have "q' \<le> q + 1"
  proof (rule ccontr)
    assume "\<not> q' \<le> q + 1"
    then have "q + 2 \<le> q'" by simp
    then have "(q + 2) * 2 ^ 32 \<le> q' * (2 ^ 32 :: nat)" by (rule mult_le_mono1)
    with p t r r' assms show False by simp
  qed
  ultimately consider "q' = q" | "q' = q + 1" by linarith
  then show ?thesis
  proof cases
    case 1
    with p t r r' assms have "r \<le> r' \<and> r' - r < 2 ^ 31" by simp
    with 1 show ?thesis unfolding defs by simp
  next
    case 2
    with p t r r' assms have "r' + 2 ^ 32 - r < 2 ^ 31" by simp
    with 2 show ?thesis unfolding defs by simp
  qed
qed

lemma fixup_step:
  fixes self :: "'a GstRtmp2Sink_scheme"
  assumes l: "sink_last_ts self = of_nat prev"
    and b: "sink_base_ts self = of_nat (prev - prev mod 2 ^ 32)"
    and le: "prev \<le> T" and d: "T - prev < 2 ^ 31" and T: "T < 2 ^ 63"
  shows "fixup_timestamp (of_nat (T mod 2 ^ 32)) self =
           (of_nat T, self\<lparr>sink_base_ts := of_nat (T - T mod 2 ^ 32), sink_last_ts := of_nat T\<rparr>)"
proof -
  define q r q' r' where "q = prev div 2 ^ 32" and "r = prev mod 2 ^ 32"
    and "q' = T div 2 ^ 32" and "r' = T mod 2 ^ 32"
  note defs = q_def r_def q'_def r'_def
  have p: "prev = q * 2 ^ 32 + r" and t: "T = q' * 2 ^ 32 + r'"
    by (simp_all add: defs)
  have r: "r < 2 ^ 32" and r': "r' < 2 ^ 32"
    by (simp_all add: defs)
  have pb: "prev - prev mod 2 ^ 32 = q * 2 ^ 32" and tb: "T - T mod 2 ^ 32 = q' * 2 ^ 32"
    by (simp_all add: defs minus_mod_eq_div_mult)
  have ul: "unat (sink_last_ts self) = prev"
    using l le T by (simp add: unat_of_nat64)
  have qb: "q * 2 ^ 32 < (2::nat) ^ 64"
    using p le T by simp
  have ub: "unat (sink_base_ts self) = q * 2 ^ 32"
    unfolding b pb by (rule unat_of_nat64 [OF qb])
  have ut: "unat (of_nat r' :: guint64) = r'"
    using r' by (simp add: unat_of_nat64)
  from epoch_cases [OF le d]
  consider "q' = q" "r \<le> r'" "r' - r < 2 ^ 31" | "q' = q + 1" "r' + 2 ^ 32 - r < 2 ^ 31"
    unfolding defs by blast
  then have "fixup_timestamp (of_nat r') self =
           (of_nat T, self\<lparr>sink_base_ts := of_nat (q' * 2 ^ 32), sink_last_ts := of_nat T\<rparr>)"
  proof cases
    case 1
    have c1: "\<not> (of_nat r' + sink_base_ts self + G_MAXINT32 < sink_last_ts self)"
      using 1 p t r r' T
      by (simp add: word_less_nat_alt unat_word_ariths ul ub ut G_MAXINT32_def)
    have c2: "\<not> (of_nat r' + sink_base_ts self > sink_last_ts self + G_MAXINT32)"
      using 1 p t r r' T
      by (simp add: word_less_nat_alt unat_word_ariths ul ub ut G_MAXINT32_def)
    have out: "of_nat r' + sink_base_ts self = (of_nat T :: guint64)"
      unfolding b pb by (simp add: t 1)
    have base: "sink_base_ts self = of_nat (q' * 2 ^ 32)"
      unfolding b pb by (simp add: 1)
    show ?thesis
      unfolding fixup_none [OF c1 c2] out by (simp add: base)
  next
    case 2
    have c1: "of_nat r' + sink_base_ts self + G_MAXINT32 < sink_last_ts self"
      using 2 p t r r' T
      by (simp add: word_less_nat_alt unat_word_ariths ul ub ut G_MAXINT32_def)
    have base: "sink_base_ts self + G_MAXUINT32 + 1 = of_nat (q' * 2 ^ 32)"
      unfolding b pb by (simp add: 2 G_MAXUINT32_def algebra_simps)
    have out: "of_nat r' + of_nat (q' * 2 ^ 32) = (of_nat T :: guint64)"
      by (simp add: t)
    show ?thesis
      unfolding fixup_wrap [OF c1] base out by simp
  qed
  then show ?thesis
    unfolding tb r'_def .
qed


lemma ucast_of_nat_32_64: "(ucast (of_nat T :: guint32) :: guint64) = of_nat (T mod 2 ^ 32)"
  by (simp add: unsigned_of_nat take_bit_eq_mod)

lemma fixup_all_true:
  "small_steps prev Ts \<Longrightarrow> sink_last_ts self = of_nat prev
     \<Longrightarrow> sink_base_ts self = of_nat (prev - prev mod 2 ^ 32)
     \<Longrightarrow> fixup_all self (map of_nat Ts) = map of_nat Ts"
proof (induction Ts arbitrary: prev self)
  case Nil
  then show ?case by simp
next
  case (Cons T Ts)
  from Cons.prems(1) have le: "prev \<le> T" and d: "T - prev < 2 ^ 31" and T: "T < 2 ^ 63"
    and rest: "small_steps T Ts" by simp_all
  note step = fixup_step [OF Cons.prems(2) Cons.prems(3) le d T]
  have "fixup_all (self\<lparr>sink_base_ts := of_nat (T - T mod 2 ^ 32), sink_last_ts := of_nat T\<rparr>)
          (map of_nat Ts) = map of_nat Ts"
    by (rule Cons.IH [OF rest]) simp_all
  with step show ?case
    by (simp add: ucast_of_nat_32_64)
qed

lemma small_steps_sorted:
  "small_steps prev Ts \<Longrightarrow> prev < 2 ^ 63 \<Longrightarrow>
     sorted (map (of_nat :: nat \<Rightarrow> guint64) Ts) \<and> (\<forall>T \<in> set Ts. (of_nat prev :: guint64) \<le> of_nat T)"
proof (induction Ts arbitrary: prev)
  case Nil
  then show ?case by simp
next
  case (Cons T Ts)
  from Cons.prems have le: "prev \<le> T" and T: "T < 2 ^ 63" and p: "prev < 2 ^ 63"
    and rest: "small_steps T Ts" by simp_all
  from Cons.IH [OF rest T]
  have s: "sorted (map (of_nat :: nat \<Rightarrow> guint64) Ts)"
    and b: "\<forall>U \<in> set Ts. (of_nat T :: guint64) \<le> of_nat U" by simp_all
  have pt: "(of_nat prev :: guint64) \<le> of_nat T"
    using le T p by (simp add: word_le_nat_alt unat_of_nat64)
  show ?case
    using s b pt by auto
qed


lemma fixup_regress:
  fixes self :: "'a GstRtmp2Sink_scheme"
  assumes "\<not> timestamp + sink_base_ts self + G_MAXINT32 < sink_last_ts self"
    and "timestamp + sink_base_ts self > sink_last_ts self + G_MAXINT32"
    and "sink_base_ts self \<noteq> 0"
  shows "fixup_timestamp timestamp self =
           (timestamp + (sink_base_ts self - G_MAXUINT32 - 1),
            self\<lparr>sink_base_ts := sink_base_ts self - G_MAXUINT32 - 1,
                 sink_last_ts := timestamp + (sink_base_ts self - G_MAXUINT32 - 1)\<rparr>)"
  using assms by (simp add: fixup_timestamp_def Let_def word_greater_zero_iff)

lemma fixup_zero:
  fixes self :: "'a GstRtmp2Sink_scheme"
  assumes "\<not> timestamp + sink_base_ts self + G_MAXINT32 < sink_last_ts self"
    and "timestamp + sink_base_ts self > sink_last_ts self + G_MAXINT32"
    and "sink_base_ts self = 0"
  shows "fixup_timestamp timestamp self = (0, self\<lparr>sink_base_ts := 0, sink_last_ts := 0\<rparr>)"
  using assms by (simp add: fixup_timestamp_def Let_def)

lemma behind_iff:
  fixes timestamp base last :: guint64
  assumes "unat timestamp < 2 ^ 32" "unat base < 2 ^ 63" "unat last < 2 ^ 63"
  shows "timestamp + base + G_MAXINT32 < last \<longleftrightarrow> unat timestamp + unat base + 2 ^ 31 \<le> unat last"
  using assms by (simp add: word_less_nat_alt unat_word_ariths G_MAXINT32_def) arith

lemma ahead_iff:
  fixes timestamp base last :: guint64
  assumes "unat timestamp < 2 ^ 32" "unat base < 2 ^ 63" "unat last < 2 ^ 63"
  shows "timestamp + base > last + G_MAXINT32 \<longleftrightarrow> unat last + 2 ^ 31 \<le> unat timestamp + unat base"
  using assms by (simp add: word_less_nat_alt unat_word_ariths G_MAXINT32_def) arith

text \<open>
  The base starts at 0 and only ever moves by \<open>2 ^ 32\<close>, so it stays a multiple of
  \<open>2 ^ 32\<close>.
\<close>

lemma fixup_base_aligned:
  fixes self :: "'a GstRtmp2Sink_scheme"
  assumes al: "2 ^ 32 dvd unat (sink_base_ts self)"
  shows "2 ^ 32 dvd unat (sink_base_ts (snd (fixup_timestamp timestamp self)))"
proof -
  have d: "(2 :: nat) ^ 32 dvd 2 ^ 64"
    by (simp add: le_imp_power_dvd)
  have up: "2 ^ 32 dvd unat (sink_base_ts self + G_MAXUINT32 + 1)"
  proof -
    have "unat (sink_base_ts self + G_MAXUINT32 + 1) = (2 ^ 32 + unat (sink_base_ts self)) mod 2 ^ 64"
      by (simp add: unat_word_ariths G_MAXUINT32_def)
    with al d show ?thesis by (simp add: dvd_mod_iff)
  qed
  have down: "2 ^ 32 dvd unat (sink_base_ts self - G_MAXUINT32 - 1)" if nz: "sink_base_ts self \<noteq> 0"
  proof -
    from al obtain k where k: "unat (sink_base_ts self) = 2 ^ 32 * k" by (rule dvdE)
    from nz have "unat (sink_base_ts self) \<noteq> 0" by (simp add: unat_eq_0)
    with k have ge: "2 ^ 32 \<le> unat (sink_base_ts self)" by (cases k) simp_all
    then have "(2 ^ 32 :: guint64) \<le> sink_base_ts self"
      by (simp add: word_le_nat_alt)
    then have "unat (sink_base_ts self - 2 ^ 32) = unat (sink_base_ts self) - unat (2 ^ 32 :: guint64)"
      by (rule unat_sub)
    then have "unat (sink_base_ts self - G_MAXUINT32 - 1) = unat (sink_base_ts self) - 2 ^ 32"
      by (simp add: G_MAXUINT32_def)
    with al show ?thesis by simp
  qed
  show ?thesis
    using al up down
    by (simp add: fixup_timestamp_def Let_def word_greater_zero_iff)
qed

text \<open>
  C1, as the code has it. The sink keeps a 64-bit base that it adds to every incoming
  32-bit timestamp, and the new \<open>last_ts\<close> is the timestamp it gives out. Where no
  sum overflows 64 bits and the base is a multiple of \<open>2 ^ 32\<close>: a candidate
  \<open>timestamp + base\<close> that lies \<open>2 ^ 31\<close> or more behind the last output raises the
  base by \<open>2 ^ 32\<close> (the 32-bit counter wrapped around); a candidate that lies
  \<open>2 ^ 31\<close> or more ahead of the last output lowers a non-zero base by \<open>2 ^ 32\<close>,
  and with a zero base leaves it at zero and forces the output to zero; any other
  candidate leaves the base alone and is the output.
\<close>

theorem rollover_correction:
  fixes self :: GstRtmp2Sink
  assumes t: "unat timestamp < 2 ^ 32"
    and b: "unat (sink_base_ts self) < 2 ^ 63"
    and l: "unat (sink_last_ts self) < 2 ^ 63"
    and al: "2 ^ 32 dvd unat (sink_base_ts self)"
  shows "sink_last_ts (snd (fixup_timestamp timestamp self)) = fst (fixup_timestamp timestamp self)
    \<and> (unat timestamp + unat (sink_base_ts self) + 2 ^ 31 \<le> unat (sink_last_ts self) \<longrightarrow>
         unat (sink_base_ts (snd (fixup_timestamp timestamp self))) = unat (sink_base_ts self) + 2 ^ 32
         \<and> unat (fst (fixup_timestamp timestamp self))
             = unat timestamp + unat (sink_base_ts self) + 2 ^ 32)
    \<and> (unat (sink_last_ts self) + 2 ^ 31 \<le> unat timestamp + unat (sink_base_ts self)
         \<and> sink_base_ts self \<noteq> 0 \<longrightarrow>
         unat (sink_base_ts (snd (fixup_timestamp timestamp self))) + 2 ^ 32 = unat (sink_base_ts self)
         \<and> unat (fst (fixup_timestamp timestamp self)) + 2 ^ 32
             = unat timestamp + unat (sink_base_ts self))
    \<and> (unat (sink_last_ts self) + 2 ^ 31 \<le> unat timestamp + unat (sink_base_ts self)
         \<and> sink_base_ts self = 0 \<longrightarrow>
         sink_base_ts (snd (fixup_timestamp timestamp self)) = 0
         \<and> fst (fixup_timestamp timestamp self) = 0)
    \<and> (unat timestamp + unat (sink_base_ts self) < unat (sink_last_ts self) + 2 ^ 31
         \<and> unat (sink_last_ts self) < unat timestamp + unat (sink_base_ts self) + 2 ^ 31 \<longrightarrow>
         sink_base_ts (snd (fixup_timestamp timestamp self)) = sink_base_ts self
         \<and> unat (fst (fixup_timestamp timestamp self))
             = unat timestamp + unat (sink_base_ts self))"
proof -
  note behind = behind_iff [OF t b l]
  note ahead = ahead_iff [OF t b l]
  consider
      (wrap) "timestamp + sink_base_ts self + G_MAXINT32 < sink_last_ts self"
    | (regress) "\<not> timestamp + sink_base_ts self + G_MAXINT32 < sink_last_ts self"
        "timestamp + sink_base_ts self > sink_last_ts self + G_MAXINT32" "sink_base_ts self \<noteq> 0"
    | (zero) "\<not> timestamp + sink_base_ts self + G_MAXINT32 < sink_last_ts self"
        "timestamp + sink_base_ts self > sink_last_ts self + G_MAXINT32" "sink_base_ts self = 0"
    | (none) "\<not> timestamp + sink_base_ts self + G_MAXINT32 < sink_last_ts self"
        "\<not> timestamp + sink_base_ts self > sink_last_ts self + G_MAXINT32"
    by blast
  then show ?thesis
  proof cases
    case wrap
    have nb: "unat (sink_base_ts self + G_MAXUINT32 + 1) = unat (sink_base_ts self) + 2 ^ 32"
      using b by (simp add: unat_word_ariths G_MAXUINT32_def)
    have no: "unat (timestamp + (sink_base_ts self + G_MAXUINT32 + 1))
                = unat timestamp + unat (sink_base_ts self) + 2 ^ 32"
      using t b nb by (simp add: unat_word_ariths)
    from wrap behind have n: "unat timestamp + unat (sink_base_ts self) + 2 ^ 31 \<le> unat (sink_last_ts self)"
      by simp
    show ?thesis
      unfolding fixup_wrap [OF wrap] using n nb no by simp
  next
    case regress
    from al obtain k where k: "unat (sink_base_ts self) = 2 ^ 32 * k" by (rule dvdE)
    from regress(3) have "unat (sink_base_ts self) \<noteq> 0" by (simp add: unat_eq_0)
    with k have ge: "2 ^ 32 \<le> unat (sink_base_ts self)" by (cases k) simp_all
    have "(2 ^ 32 :: guint64) \<le> sink_base_ts self"
      using ge by (simp add: word_le_nat_alt)
    then have "unat (sink_base_ts self - 2 ^ 32) = unat (sink_base_ts self) - unat (2 ^ 32 :: guint64)"
      by (rule unat_sub)
    then have nb: "unat (sink_base_ts self - G_MAXUINT32 - 1) + 2 ^ 32 = unat (sink_base_ts self)"
      using ge by (simp add: G_MAXUINT32_def)
    have no: "unat (timestamp + (sink_base_ts self - G_MAXUINT32 - 1)) + 2 ^ 32
                = unat timestamp + unat (sink_base_ts self)"
    proof -
      have "unat (timestamp + (sink_base_ts self - G_MAXUINT32 - 1))
              = (unat timestamp + unat (sink_base_ts self - G_MAXUINT32 - 1)) mod 2 ^ 64"
        by (simp add: unat_word_ariths)
      then show ?thesis using t b nb by simp
    qed
    from regress behind ahead
    have n: "unat (sink_last_ts self) + 2 ^ 31 \<le> unat timestamp + unat (sink_base_ts self)"
      by simp
    show ?thesis
      unfolding fixup_regress [OF regress] using n nb no regress(3) by simp
  next
    case zero
    from zero behind ahead
    have n: "unat (sink_last_ts self) + 2 ^ 31 \<le> unat timestamp + unat (sink_base_ts self)"
      by simp
    show ?thesis
      unfolding fixup_zero [OF zero] using n zero(3) by simp
  next
    case none
    have no: "unat (timestamp + sink_base_ts self) = unat timestamp + unat (sink_base_ts self)"
      using t b by (simp add: unat_word_ariths)
    from none behind ahead
    have n: "unat timestamp + unat (sink_base_ts self) < unat (sink_last_ts self) + 2 ^ 31"
      "unat (sink_last_ts self) < unat timestamp + unat (sink_base_ts self) + 2 ^ 31"
      by simp_all
    show ?thesis
      unfolding fixup_none [OF none] using n no by simp
  qed
qed


theorem rollover_correction_witness:
  "unat (sink_base_ts (snd (fixup_timestamp 1
        (gst_rtmp2_sink_init\<lparr>sink_last_ts := 0xfffffffe, sink_base_ts := 0\<rparr>)))) = 2 ^ 32
   \<and> unat (fst (fixup_timestamp 1
        (gst_rtmp2_sink_init\<lparr>sink_last_ts := 0xfffffffe, sink_base_ts := 0\<rparr>))) = 2 ^ 32 + 1
   \<and> unat (sink_base_ts (snd (fixup_timestamp 0x90000000
        (gst_rtmp2_sink_init\<lparr>sink_last_ts := 0x100000001, sink_base_ts := 0x100000000\<rparr>)))) = 0
   \<and> unat (fst (fixup_timestamp 0x90000000
        (gst_rtmp2_sink_init\<lparr>sink_last_ts := 0x100000001, sink_base_ts := 0x100000000\<rparr>)))
       = 0x90000000
   \<and> sink_base_ts (snd (fixup_timestamp 0x80000001
        (gst_rtmp2_sink_init\<lparr>sink_last_ts := 0, sink_base_ts := 0\<rparr>))) = 0
   \<and> fst (fixup_timestamp 0x80000001
        (gst_rtmp2_sink_init\<lparr>sink_last_ts := 0, sink_base_ts := 0\<rparr>)) = 0
   \<and> sink_base_ts (snd (fixup_timestamp 7
        (gst_rtmp2_sink_init\<lparr>sink_last_ts := 5, sink_base_ts := 0\<rparr>))) = 0
   \<and> unat (fst (fixup_timestamp 7
        (gst_rtmp2_sink_init\<lparr>sink_last_ts := 5, sink_base_ts := 0\<rparr>))) = 7"
proof -
  have wrap: "unat (sink_base_ts (snd (fixup_timestamp 1
        (gst_rtmp2_sink_init\<lparr>sink_last_ts := 0xfffffffe, sink_base_ts := 0\<rparr>)))) = 2 ^ 32
   \<and> unat (fst (fixup_timestamp 1
        (gst_rtmp2_sink_init\<lparr>sink_last_ts := 0xfffffffe, sink_base_ts := 0\<rparr>))) = 2 ^ 32 + 1"
    using rollover_correction [of 1
        "gst_rtmp2_sink_init\<lparr>sink_last_ts := 0xfffffffe, sink_base_ts := 0\<rparr>"]
    by simp
  have regress: "unat (sink_base_ts (snd (fixup_timestamp 0x90000000
        (gst_rtmp2_sink_init\<lparr>sink_last_ts := 0x100000001, sink_base_ts := 0x100000000\<rparr>)))) = 0
   \<and> unat (fst (fixup_timestamp 0x90000000
        (gst_rtmp2_sink_init\<lparr>sink_last_ts := 0x100000001, sink_base_ts := 0x100000000\<rparr>)))
       = 0x90000000"
    using rollover_correction [of "0x90000000"
        "gst_rtmp2_sink_init\<lparr>sink_last_ts := 0x100000001, sink_base_ts := 0x100000000\<rparr>"]
    by simp
  have zero: "sink_base_ts (snd (fixup_timestamp 0x80000001
        (gst_rtmp2_sink_init\<lparr>sink_last_ts := 0, sink_base_ts := 0\<rparr>))) = 0
   \<and> fst (fixup_timestamp 0x80000001
        (gst_rtmp2_sink_init\<lparr>sink_last_ts := 0, sink_base_ts := 0\<rparr>)) = 0"
    using rollover_correction [of "0x80000001"
        "gst_rtmp2_sink_init\<lparr>sink_last_ts := 0, sink_base_ts := 0\<rparr>"]
    by simp
  have none: "sink_base_ts (snd (fixup_timestamp 7
        (gst_rtmp2_sink_init\<lparr>sink_last_ts := 5, sink_base_ts := 0\<rparr>))) = 0
   \<and> unat (fst (fixup_timestamp 7
        (gst_rtmp2_sink_init\<lparr>sink_last_ts := 5, sink_base_ts := 0\<rparr>))) = 7"
    using rollover_correction [of 7
        "gst_rtmp2_sink_init\<lparr>sink_last_ts := 5, sink_base_ts := 0\<rparr>"]
    by simp
  from wrap regress zero none show ?thesis
    by blast
qed

text \<open>
  The directions of C1 as the claim words them fail on the code. From base 0 and last
  output 0 the timestamp \<open>0x80000001\<close> jumps forward by more than half the range: the
  base is not raised, it stays 0, and the output is forced to 0. After the output
  \<open>0xF0000000\<close> the timestamp \<open>0x10\<close> jumps backward by more than half the range: the
  base is not lowered, it is raised to \<open>2 ^ 32\<close>.
\<close>

theorem rollover_direction_counterexample:
  "fixup_timestamp 0x80000001 (gst_rtmp2_sink_start gst_rtmp2_sink_init)
     = (0, gst_rtmp2_sink_start gst_rtmp2_sink_init)
   \<and> sink_base_ts (gst_rtmp2_sink_start gst_rtmp2_sink_init) + 2 ^ 32 \<noteq> 0
   \<and> fixup_timestamp 0x10 (gst_rtmp2_sink_init\<lparr>sink_last_ts := 0xF0000000\<rparr>)
     = (0x100000010,
        gst_rtmp2_sink_init\<lparr>sink_base_ts := 0x100000000, sink_last_ts := 0x100000010\<rparr>)"
  by (simp add: gst_rtmp2_sink_start_def gst_rtmp2_sink_init_def fixup_timestamp_def
      G_MAXINT32_def G_MAXUINT32_def)

lemma small_steps_ge: "small_steps prev Ts \<Longrightarrow> T \<in> set Ts \<Longrightarrow> prev \<le> T"
  by (induction Ts arbitrary: prev) (auto intro: order_trans)

lemma small_steps_shift:
  "small_steps prev Ts \<Longrightarrow> k \<le> prev \<Longrightarrow> small_steps (prev - k) (map (\<lambda>T. T - k) Ts)"
proof (induction Ts arbitrary: prev)
  case Nil
  then show ?case by simp
next
  case (Cons T Ts)
  from Cons.prems have le: "prev \<le> T" and d: "T - prev < 2 ^ 31" and T: "T < 2 ^ 63"
    and rest: "small_steps T Ts" and k: "k \<le> prev" by simp_all
  from le k have kT: "k \<le> T" by simp
  from Cons.IH [OF rest kT] le d T k show ?case
    by (simp add: diff_le_mono less_imp_diff_less)
qed

lemma of_nat_shift_32:
  assumes "2 ^ 32 dvd k" "k \<le> T"
  shows "(of_nat (T - k) :: guint32) = of_nat T"
proof -
  from assms(1) obtain j where j: "k = 2 ^ 32 * j" by (rule dvdE)
  have z: "(2 ^ 32 :: guint32) = 0"
    by simp
  have "(of_nat k :: guint32) = 2 ^ 32 * of_nat j"
    unfolding j by (simp only: of_nat_mult of_nat_power of_nat_numeral)
  then have "(of_nat k :: guint32) = 0"
    by (simp only: z mult_zero_left)
  with assms(2) show ?thesis by (simp add: of_nat_diff)
qed


lemma fixup_all_shifted:
  assumes s: "small_steps prev Ts" and k: "2 ^ 32 dvd k" and le: "k \<le> prev"
    and l: "sink_last_ts self = of_nat (prev - k)"
    and b: "sink_base_ts self = of_nat ((prev - k) - (prev - k) mod 2 ^ 32)"
  shows "fixup_all self (map of_nat Ts) = map (\<lambda>T. of_nat (T - k)) Ts"
proof -
  have e: "map (of_nat :: nat \<Rightarrow> guint32) Ts = map of_nat (map (\<lambda>T. T - k) Ts)"
  proof -
    have "(of_nat T :: guint32) = of_nat (T - k)" if "T \<in> set Ts" for T
    proof -
      from small_steps_ge [OF s that] le have "k \<le> T" by simp
      from of_nat_shift_32 [OF k this] show ?thesis by simp
    qed
    then show ?thesis by simp
  qed
  have "fixup_all self (map of_nat (map (\<lambda>T. T - k) Ts))
          = map of_nat (map (\<lambda>T. T - k) Ts)"
    by (rule fixup_all_true [OF small_steps_shift [OF s le] l b])
  then have "fixup_all self (map of_nat Ts) = map of_nat (map (\<lambda>T. T - k) Ts)"
    by (simp only: e)
  then show ?thesis by (simp only: map_map comp_def)
qed

lemma fixup_all_Cons:
  "fixup_timestamp (ucast ts) self = (out, self1) \<Longrightarrow>
     fixup_all self (ts # rest) = out # fixup_all self1 rest"
  by simp

lemma sorted_shifted:
  assumes s: "small_steps prev Ts" and le: "k \<le> prev" and p: "prev < 2 ^ 63"
  shows "sorted (map (\<lambda>T. of_nat (T - k)) Ts :: guint64 list)
     \<and> (\<forall>T \<in> set Ts. (of_nat (prev - k) :: guint64) \<le> of_nat (T - k))"
proof -
  from p have "prev - k < 2 ^ 63" by simp
  from small_steps_sorted [OF small_steps_shift [OF s le] this]
  show ?thesis by (simp add: comp_def)
qed

lemma fixup_from_zero_high:
  fixes self :: "'a GstRtmp2Sink_scheme"
  assumes "sink_last_ts self = 0" "sink_base_ts self = 0" "2 ^ 31 \<le> t" "t < 2 ^ 32"
  shows "fixup_timestamp (of_nat t) self = (0, self)"
proof -
  have u: "unat (of_nat t :: guint64) = t"
    using assms(4) by (simp add: unat_of_nat64)
  have c1: "\<not> of_nat t + sink_base_ts self + G_MAXINT32 < sink_last_ts self"
    by (simp add: assms(1))
  have c2: "of_nat t + sink_base_ts self > sink_last_ts self + G_MAXINT32"
    using assms(3,4) by (simp add: assms(1,2) word_less_nat_alt u G_MAXINT32_def)
  show ?thesis
    using fixup_zero [OF c1 c2 assms(2)] assms(1,2) by simp
qed

lemma fixup_from_zero_low:
  fixes self :: "'a GstRtmp2Sink_scheme"
  assumes "sink_last_ts self = 0" "sink_base_ts self = 0" "t < 2 ^ 31"
  shows "fixup_timestamp (of_nat t) self = (of_nat t, self\<lparr>sink_last_ts := of_nat t\<rparr>)"
proof -
  have u: "unat (of_nat t :: guint64) = t"
    using assms(3) by (simp add: unat_of_nat64)
  have c1: "\<not> of_nat t + sink_base_ts self + G_MAXINT32 < sink_last_ts self"
    by (simp add: assms(1))
  have c2: "\<not> of_nat t + sink_base_ts self > sink_last_ts self + G_MAXINT32"
    using assms(3) by (simp add: assms(1,2) word_less_nat_alt u G_MAXINT32_def)
  show ?thesis
    using fixup_none [OF c1 c2] assms(2) by simp
qed

lemma sorted_from_zero:
  "sink_last_ts self = 0 \<Longrightarrow> sink_base_ts self = 0 \<Longrightarrow> T < 2 ^ 63 \<Longrightarrow> small_steps T Ts
     \<Longrightarrow> sorted (fixup_all self (map of_nat (T # Ts)))"
proof (induction Ts arbitrary: T)
  case Nil
  then show ?case by (simp split: prod.split)
next
  case (Cons T2 Ts2)
  define t where "t = T mod 2 ^ 32"
  have t32: "t < 2 ^ 32" by (simp add: t_def)
  have in32: "(ucast (of_nat T :: guint32) :: guint64) = of_nat t"
    by (simp add: ucast_of_nat_32_64 t_def)
  show ?case
  proof (cases "t < 2 ^ 31")
    case False
    then have high: "2 ^ 31 \<le> t" by simp
    from Cons.prems(4) have T2: "T2 < 2 ^ 63" and rest: "small_steps T2 Ts2" by simp_all
    have "sorted (fixup_all self (map of_nat (T2 # Ts2)))"
      by (rule Cons.IH [OF Cons.prems(1) Cons.prems(2) T2 rest])
    then have so: "sorted (0 # fixup_all self (map of_nat (T2 # Ts2)))"
      by (simp del: fixup_all.simps)
    have "fixup_timestamp (ucast (of_nat T :: guint32)) self = (0, self)"
      unfolding in32 by (rule fixup_from_zero_high [OF Cons.prems(1) Cons.prems(2) high t32])
    then have "fixup_all self (of_nat T # map of_nat (T2 # Ts2))
                 = 0 # fixup_all self (map of_nat (T2 # Ts2))"
      by (rule fixup_all_Cons)
    then have "fixup_all self (map of_nat (T # T2 # Ts2))
                 = 0 # fixup_all self (map of_nat (T2 # Ts2))"
      by (simp only: list.map)
    with so show ?thesis by (simp only:)
  next
    case True
    define k where "k = T - t"
    have tT: "t \<le> T"
      by (simp add: t_def)
    have "k = 2 ^ 32 * (T div 2 ^ 32)"
      unfolding k_def t_def by (rule minus_mod_eq_mult_div)
    then have k: "2 ^ 32 dvd k"
      by simp
    have le: "k \<le> T" and tk: "T - k = t"
      using tT by (simp_all add: k_def)
    let ?self1 = "self\<lparr>sink_last_ts := of_nat t\<rparr>"
    have l: "sink_last_ts ?self1 = of_nat (T - k)"
      by (simp add: tk)
    have b: "sink_base_ts ?self1 = of_nat ((T - k) - (T - k) mod 2 ^ 32)"
      using t32 by (simp add: tk Cons.prems(2))
    note out = fixup_all_shifted [OF Cons.prems(4) k le l b]
    from sorted_shifted [OF Cons.prems(4) le Cons.prems(3)]
    have "sorted (of_nat t # map (\<lambda>U. of_nat (U - k)) (T2 # Ts2) :: guint64 list)"
      by (simp add: tk)
    then have so: "sorted (of_nat t # fixup_all ?self1 (map of_nat (T2 # Ts2)))"
      by (simp only: out)
    have "fixup_timestamp (ucast (of_nat T :: guint32)) self = (of_nat t, ?self1)"
      unfolding in32 by (rule fixup_from_zero_low [OF Cons.prems(1) Cons.prems(2) True])
    then have "fixup_all self (of_nat T # map of_nat (T2 # Ts2))
                 = of_nat t # fixup_all ?self1 (map of_nat (T2 # Ts2))"
      by (rule fixup_all_Cons)
    then have "fixup_all self (map of_nat (T # T2 # Ts2))
                 = of_nat t # fixup_all ?self1 (map of_nat (T2 # Ts2))"
      by (simp only: list.map)
    with so show ?thesis by (simp only:)
  qed
qed

text \<open>
  C2, as the code has it. Let the true timestamps in milliseconds never go back, advance
  by less than \<open>2 ^ 31\<close> from one buffer to the next and stay below \<open>2 ^ 63\<close>; the
  first may be any of them. Fed their low 32 bits, a sink just started gives out a
  sequence that never decreases, through any number of wraparounds of the 32-bit
  counter.
\<close>

theorem corrected_timestamps_monotone:
  "T < 2 ^ 63 \<Longrightarrow> small_steps T Ts \<Longrightarrow>
     sorted (fixup_all (gst_rtmp2_sink_start self) (map of_nat (T # Ts)))"
  by (rule sorted_from_zero) (simp_all add: gst_rtmp2_sink_start_def)

theorem corrected_timestamps_monotone_witness:
  "(0x80000000 :: nat) < 2 ^ 63
   \<and> small_steps 0x80000000 [0x90000000, 0xfffffff0, 0x100000010, 0x100000020]
   \<and> sorted (fixup_all (gst_rtmp2_sink_start gst_rtmp2_sink_init)
         [0x80000000, 0x90000000, 0xfffffff0, 0x00000010, 0x00000020])"
proof -
  have b: "(0x80000000 :: nat) < 2 ^ 63"
    by simp
  have h: "small_steps 0x80000000 [0x90000000, 0xfffffff0, 0x100000010, 0x100000020]"
    by simp
  show ?thesis
    using b h corrected_timestamps_monotone [OF b h, of gst_rtmp2_sink_init]
    by simp
qed

text \<open>
  Without the bound on the steps C2 fails. The 32-bit timestamps below increase, wrap
  around from \<open>0xfffffffe\<close> to \<open>1\<close> and increase again; the step after the
  wraparound is \<open>2 ^ 31\<close> or more, the sink takes it for a jump and lowers the base
  again, and the corrected sequence decreases.
\<close>

theorem wrapped_sequence_counterexample:
  "sorted [0x7fffffff, 0xfffffffe :: guint32]
   \<and> (0x00000001 :: guint32) < 0xfffffffe
   \<and> sorted [0x00000001, 0x90000000 :: guint32]
   \<and> fixup_all (gst_rtmp2_sink_start gst_rtmp2_sink_init)
         [0x7fffffff, 0xfffffffe, 0x00000001, 0x90000000]
       = [0x7fffffff, 0xfffffffe, 0x100000001, 0x90000000]
   \<and> \<not> sorted (fixup_all (gst_rtmp2_sink_start gst_rtmp2_sink_init)
         [0x7fffffff, 0xfffffffe, 0x00000001, 0x90000000])"
  by (simp add: gst_rtmp2_sink_start_def gst_rtmp2_sink_init_def fixup_timestamp_def
      G_MAXINT32_def G_MAXUINT32_def)

section \<open>Buffers of the sink\<close>

lemma flv_signature_string: "flv_signature = map (\<lambda>c. of_nat (of_char c)) ''FLV''"
  by (simp add: flv_signature_def)

text \<open>
  The timestamp that \<open>buffer_to_message\<close> reads fits 32 bits, and a buffer that
  passes the size check leaves the sink as the fixup of that timestamp leaves it.
\<close>

lemma read_timestamp_32: "unat (read_timestamp info) < 2 ^ 32"
proof -
  have "read_timestamp info
          = ucast (GST_READ_UINT24_BE info 4 OR push_bit 24 (ucast (info ! 7) :: guint32))"
    by (simp add: read_timestamp_def unsigned_or_eq)
  moreover have "unat (ucast w :: guint64) < 2 ^ 32" for w :: guint32
  proof -
    have b: "unat w < 2 ^ 32"
      using unsigned_less [of w, where ?'a = nat] by simp
    then have "unat w < 2 ^ 64" by simp
    then have "take_bit 64 (unat w) = unat w"
      by (simp add: take_bit_nat_eq_self)
    then have "unat (ucast w :: guint64) = unat w"
      by (simp add: unsigned_ucast_eq)
    with b show ?thesis by simp
  qed
  ultimately show ?thesis by simp
qed

lemma buffer_to_message_fixup:
  assumes "gst_buffer_map buffer = Some info" "take 3 info \<noteq> flv_signature" "15 \<le> length info"
  shows "snd (buffer_to_message self buffer) = snd (fixup_timestamp (read_timestamp info) self)"
  using assms
  by (simp add: buffer_to_message_def Let_def split: prod.split)

text \<open>
  C8. A buffer whose mapped bytes are at least 4 and begin with \<open>FLV\<close> is taken for
  the container header: \<open>buffer_to_message\<close> succeeds without a message and leaves the
  sink as it was, and \<open>gst_rtmp2_sink_render\<close> returns \<open>GST_FLOW_OK\<close> with nothing
  queued on the connection.
\<close>

theorem flv_header_stripped:
  assumes "gst_buffer_map buffer = Some info" and "4 \<le> length info"
    and "take 3 info = flv_signature"
  shows "buffer_to_message self buffer = (B2M_TRUE None, self)
    \<and> gst_rtmp2_sink_render self buffer = (Returns GST_FLOW_OK, self)"
  using assms by (simp add: buffer_to_message_def gst_rtmp2_sink_render_def)

theorem flv_header_stripped_witness:
  "gst_buffer_map flv_header_buffer = Some (buf_data flv_header_buffer)
   \<and> 4 \<le> length (buf_data flv_header_buffer)
   \<and> take 3 (buf_data flv_header_buffer) = flv_signature
   \<and> buffer_to_message gst_rtmp2_sink_init flv_header_buffer = (B2M_TRUE None, gst_rtmp2_sink_init)
   \<and> gst_rtmp2_sink_render gst_rtmp2_sink_init flv_header_buffer
       = (Returns GST_FLOW_OK, gst_rtmp2_sink_init)"
proof -
  have m: "gst_buffer_map flv_header_buffer = Some (buf_data flv_header_buffer)"
    by (simp add: gst_buffer_map_def flv_header_buffer_def)
  have n: "4 \<le> length (buf_data flv_header_buffer)"
    by (simp add: flv_header_buffer_def)
  have f: "take 3 (buf_data flv_header_buffer) = flv_signature"
    by (simp add: flv_header_buffer_def flv_signature_def)
  show ?thesis
    using m n f flv_header_stripped [OF m n f, of gst_rtmp2_sink_init] by simp
qed

lemma b2m_accepted:
  assumes "buffer_to_message self buffer = (B2M_TRUE (Some message), self1)"
  shows "buf_mappable buffer \<and> 15 \<le> length (buf_data buffer)
    \<and> buf_data message =
        (if buf_data buffer ! 0 = GST_RTMP_MESSAGE_TYPE_DATA_AMF0 then set_data_frame_header else [])
        @ take (length (buf_data buffer) - 15) (drop 11 (buf_data buffer))
    \<and> (buf_data buffer ! 0 = GST_RTMP_MESSAGE_TYPE_DATA_AMF0
        \<or> buf_data buffer ! 0 = GST_RTMP_MESSAGE_TYPE_AUDIO
        \<or> buf_data buffer ! 0 = GST_RTMP_MESSAGE_TYPE_VIDEO)"
  using assms
  by (auto simp: buffer_to_message_def gst_buffer_map_def Let_def gst_rtmp_message_new_def
      gst_buffer_append_region_def gst_buffer_prepend_memory_def
      split: if_splits prod.splits)

lemma slice_between:
  "15 \<le> length d \<Longrightarrow> take (length d - 15) (drop 11 d) = drop 11 (take (length d - 4) d)"
  by (simp add: drop_take)

text \<open>
  C10, as the code has it. A buffer that does not begin with \<open>FLV\<close> and has fewer than
  15 bytes makes \<open>buffer_to_message\<close> fail and leaves the sink as it was;
  \<open>gst_rtmp2_sink_render\<close> then returns \<open>GST_FLOW_ERROR\<close>, unless the buffer
  carries the header flag while stream headers are collected, which it skips with
  \<open>GST_FLOW_OK\<close>; either way nothing is queued. For every buffer that yields a message
  the 11 bytes of the tag header, the payload and the 4 bytes of the footer make up the
  buffer, and the payload of the message is the bytes between header and footer, after
  the 16 bytes of the \<open>@setDataFrame\<close> header when the tag is script data.
\<close>

theorem short_buffer_rejected_payload_in_bounds:
  "(take 3 (buf_data short) \<noteq> flv_signature \<and> length (buf_data short) < 15 \<longrightarrow>
       buffer_to_message self short = (B2M_FALSE, self)
       \<and> gst_rtmp2_sink_render self short =
           (if should_drop_header self short then (Returns GST_FLOW_OK, self)
            else (Returns GST_FLOW_ERROR, self)))
   \<and> (buffer_to_message self buffer = (B2M_TRUE (Some message), self1) \<longrightarrow>
       11 + (length (buf_data buffer) - 15) + 4 = length (buf_data buffer)
       \<and> buf_data message =
           (if buf_data buffer ! 0 = GST_RTMP_MESSAGE_TYPE_DATA_AMF0 then set_data_frame_header else [])
           @ drop 11 (take (length (buf_data buffer) - 4) (buf_data buffer)))"
proof (intro conjI impI)
  assume a: "take 3 (buf_data short) \<noteq> flv_signature \<and> length (buf_data short) < 15"
  then show f: "buffer_to_message self short = (B2M_FALSE, self)"
    by (simp add: buffer_to_message_def gst_buffer_map_def)
  then show "gst_rtmp2_sink_render self short =
           (if should_drop_header self short then (Returns GST_FLOW_OK, self)
            else (Returns GST_FLOW_ERROR, self))"
    by (simp add: gst_rtmp2_sink_render_def)
next
  assume a: "buffer_to_message self buffer = (B2M_TRUE (Some message), self1)"
  from b2m_accepted [OF a] show "11 + (length (buf_data buffer) - 15) + 4 = length (buf_data buffer)"
    by simp
  from b2m_accepted [OF a] show "buf_data message =
           (if buf_data buffer ! 0 = GST_RTMP_MESSAGE_TYPE_DATA_AMF0 then set_data_frame_header else [])
           @ drop 11 (take (length (buf_data buffer) - 4) (buf_data buffer))"
    by (simp add: slice_between)
qed

lemma video_tag_message:
  "buffer_to_message gst_rtmp2_sink_init video_tag_buffer =
     (B2M_TRUE (Some ((gst_rtmp_message_new 9 6 1)\<lparr>buf_data := [0x17, 0x01],
                                                  buf_dts := 10240000000\<rparr>)),
      gst_rtmp2_sink_init\<lparr>sink_last_ts := 10240\<rparr>)"
  by (simp add: buffer_to_message_def gst_buffer_map_def video_tag_buffer_def flv_signature_def
    read_timestamp_def GST_READ_UINT24_BE_def fixup_timestamp_def gst_rtmp2_sink_init_def
    G_MAXINT32_def G_MAXUINT32_def GST_RTMP_MESSAGE_TYPE_DATA_AMF0_def GST_RTMP_MESSAGE_TYPE_AUDIO_def
    GST_RTMP_MESSAGE_TYPE_VIDEO_def gst_rtmp_message_new_def gst_buffer_append_region_def GST_MSECOND_def
    gst_buffer_prepend_memory_def GST_CLOCK_TIME_NONE_def)

theorem short_buffer_rejected_payload_in_bounds_witness:
  "take 3 (buf_data (short_buffer False)) \<noteq> flv_signature
   \<and> length (buf_data (short_buffer False)) < 15
   \<and> buffer_to_message gst_rtmp2_sink_init (short_buffer False) = (B2M_FALSE, gst_rtmp2_sink_init)
   \<and> gst_rtmp2_sink_render gst_rtmp2_sink_init (short_buffer False)
       = (Returns GST_FLOW_ERROR, gst_rtmp2_sink_init)
   \<and> buffer_to_message gst_rtmp2_sink_init video_tag_buffer =
       (B2M_TRUE (Some ((gst_rtmp_message_new 9 6 1)\<lparr>buf_data := [0x17, 0x01],
                                                    buf_dts := 10240000000\<rparr>)),
        gst_rtmp2_sink_init\<lparr>sink_last_ts := 10240\<rparr>)
   \<and> 11 + (length (buf_data video_tag_buffer) - 15) + 4 = length (buf_data video_tag_buffer)
   \<and> drop 11 (take (length (buf_data video_tag_buffer) - 4) (buf_data video_tag_buffer))
       = [0x17, 0x01]"
proof -
  have a: "take 3 (buf_data (short_buffer False)) \<noteq> flv_signature
           \<and> length (buf_data (short_buffer False)) < 15"
    by (simp add: short_buffer_def flv_signature_def)
  have d: "\<not> should_drop_header gst_rtmp2_sink_init (short_buffer False)"
    by (simp add: should_drop_header_def short_buffer_def)
  have t: "buf_data video_tag_buffer ! 0 \<noteq> GST_RTMP_MESSAGE_TYPE_DATA_AMF0"
    by (simp add: video_tag_buffer_def GST_RTMP_MESSAGE_TYPE_DATA_AMF0_def)
  show ?thesis
    using a d t video_tag_message
      short_buffer_rejected_payload_in_bounds [where short = "short_buffer False"
        and self = gst_rtmp2_sink_init and buffer = video_tag_buffer
        and message = "(gst_rtmp_message_new 9 6 1)\<lparr>buf_data := [0x17, 0x01],
                                                      buf_dts := 10240000000\<rparr>"
        and ?self1.0 = "gst_rtmp2_sink_init\<lparr>sink_last_ts := 10240\<rparr>"]
    by simp
qed

text \<open>
  C10 as worded fails twice: a one-byte buffer with the header flag is skipped with
  \<open>GST_FLOW_OK\<close> while a stream header is collected, and the message of a script-data
  tag carries the \<open>@setDataFrame\<close> header before the bytes of the tag.
\<close>

theorem short_header_and_script_data_counterexample:
  "take 3 (buf_data (short_buffer True)) \<noteq> flv_signature
   \<and> length (buf_data (short_buffer True)) < 15
   \<and> gst_rtmp2_sink_render (gst_rtmp2_sink_init\<lparr>sink_headers := [gst_rtmp_message_new 9 6 1]\<rparr>)
        (short_buffer True)
       = (Returns GST_FLOW_OK, gst_rtmp2_sink_init\<lparr>sink_headers := [gst_rtmp_message_new 9 6 1]\<rparr>)
   \<and> fst (buffer_to_message gst_rtmp2_sink_init script_tag_buffer)
       = B2M_TRUE (Some ((gst_rtmp_message_new 18 4 1)
             \<lparr>buf_data := set_data_frame_header @ [0xAA], buf_dts := 0\<rparr>))
   \<and> drop 11 (take (length (buf_data script_tag_buffer) - 4) (buf_data script_tag_buffer)) = [0xAA]"
  by (simp add: gst_rtmp2_sink_render_def should_drop_header_def short_buffer_def
    buffer_to_message_def gst_buffer_map_def script_tag_buffer_def flv_signature_def
    read_timestamp_def GST_READ_UINT24_BE_def fixup_timestamp_def gst_rtmp2_sink_init_def
    G_MAXINT32_def G_MAXUINT32_def GST_RTMP_MESSAGE_TYPE_DATA_AMF0_def GST_RTMP_MESSAGE_TYPE_AUDIO_def
    GST_RTMP_MESSAGE_TYPE_VIDEO_def gst_rtmp_message_new_def gst_buffer_append_region_def GST_MSECOND_def
    gst_buffer_prepend_memory_def GST_CLOCK_TIME_NONE_def)

section \<open>Backpressure of the sink\<close>










section \<open>The status of the publish command\<close>

lemma publish_status_code:
  "map_of members ''code'' = Some (AmfString code) \<Longrightarrow>
   publish_status connection (AmfObject members) =
     Inr (if code = ''NetStream.Publish.Start'' then Inr connection
          else if code = ''NetStream.Publish.BadName''
          then Inl (GError G_IO_ERROR G_IO_ERROR_EXISTS (''Stream already exists! ('' @ code @ '')''))
          else if code = ''NetStream.Publish.Denied''
          then Inl (GError G_IO_ERROR G_IO_ERROR_PERMISSION_DENIED (''Publish denied! ('' @ code @ '')''))
          else Inl (GError G_IO_ERROR G_IO_ERROR_FAILED (''unhandled publish result code: '' @ code)))"
  by (simp add: publish_status_def g_str_equal_def printf_s_def GST_STR_NULL_def)

lemma publish_status_no_code:
  "(case map_of members ''code'' of None \<Rightarrow> True | Some n \<Rightarrow> gst_amf_node_get_type n \<noteq> GST_AMF_TYPE_STRING) \<Longrightarrow>
   publish_status connection (AmfObject members) = Inl NullPointerDereference"
  apply (cases "map_of members ''code''")
   apply (simp add: publish_status_def g_str_equal_def)
  subgoal for n
    by (cases n) (simp_all add: publish_status_def g_str_equal_def)
  done

text \<open>
  C3, as the code has it. With the task not cancelled, an \<open>onStatus\<close> reply whose
  second argument is an object with a string \<open>code\<close> resolves the task by that code:
  \<open>NetStream.Publish.Start\<close> with the connection, \<open>NetStream.Publish.BadName\<close> with
  \<open>G_IO_ERROR_EXISTS\<close>, \<open>NetStream.Publish.Denied\<close> with
  \<open>G_IO_ERROR_PERMISSION_DENIED\<close>, any other string with \<open>G_IO_ERROR_FAILED\<close>. A reply
  without a second argument, or with one that is not an object, and a reply without
  arguments resolve it with \<open>G_IO_ERROR_FAILED\<close>. With the task cancelled every reply
  resolves it with the cancellation.
\<close>

theorem publish_status_outcome:
  "(1 < length args \<and> args ! 1 = AmfObject members
      \<and> map_of members ''code'' = Some (AmfString code) \<longrightarrow>
      publish_done False connection (Some args) =
        Inr (if code = ''NetStream.Publish.Start'' then Inr connection
             else if code = ''NetStream.Publish.BadName''
             then Inl (GError G_IO_ERROR G_IO_ERROR_EXISTS
                         (''Stream already exists! ('' @ code @ '')''))
             else if code = ''NetStream.Publish.Denied''
             then Inl (GError G_IO_ERROR G_IO_ERROR_PERMISSION_DENIED
                         (''Publish denied! ('' @ code @ '')''))
             else Inl (GError G_IO_ERROR G_IO_ERROR_FAILED
                         (''unhandled publish result code: '' @ code))))
   \<and> (length other \<le> 1 \<or> gst_amf_node_get_type (other ! 1) \<noteq> GST_AMF_TYPE_OBJECT \<longrightarrow>
      publish_done False connection (Some other) =
        Inr (Inl (GError G_IO_ERROR G_IO_ERROR_FAILED ''publish failed'')))
   \<and> publish_done False connection None =
        Inr (Inl (GError G_IO_ERROR G_IO_ERROR_FAILED ''publish failed''))
   \<and> publish_done True connection reply = Inr (Inl cancelled_error)"
  by (auto simp: publish_done_def publish_status_code Let_def)

theorem publish_status_outcome_witness:
  "1 < length (status_reply ''NetStream.Publish.BadName'')
   \<and> status_reply ''NetStream.Publish.BadName'' ! 1
       = AmfObject [(''level'', AmfString ''status''), (''code'', AmfString ''NetStream.Publish.BadName'')]
   \<and> map_of [(''level'', AmfString ''status''), (''code'', AmfString ''NetStream.Publish.BadName'')] ''code''
       = Some (AmfString ''NetStream.Publish.BadName'')
   \<and> publish_done False live_connection (Some (status_reply ''NetStream.Publish.BadName''))
       = Inr (Inl (GError G_IO_ERROR G_IO_ERROR_EXISTS
                     ''Stream already exists! (NetStream.Publish.BadName)''))
   \<and> length [AmfNull] \<le> 1
   \<and> publish_done False live_connection (Some [AmfNull])
       = Inr (Inl (GError G_IO_ERROR G_IO_ERROR_FAILED ''publish failed''))"
  using publish_status_outcome [where args = "status_reply ''NetStream.Publish.BadName''"
      and members = "[(''level'', AmfString ''status''), (''code'', AmfString ''NetStream.Publish.BadName'')]"
      and code = "''NetStream.Publish.BadName''" and other = "[AmfNull]"
      and connection = live_connection]
  by (simp add: status_reply_def)

text \<open>
  C3 as worded fails on the code: a reply with the code \<open>NetStream.Publish.Start\<close>
  does not resolve a cancelled task with the connection, and a code that is a number is
  not answered with a generic failure, the handler reads through a null pointer.
\<close>

theorem publish_status_counterexample:
  "publish_done True live_connection (Some (status_reply ''NetStream.Publish.Start''))
     = Inr (Inl cancelled_error)
   \<and> publish_done False live_connection (Some [AmfNull, AmfObject [(''code'', AmfNumber 5)]])
     = Inl NullPointerDereference"
  by (simp add: publish_done_def publish_status_def g_str_equal_def)

text \<open>
  C4 asks that an object without a string \<open>code\<close> resolves the task with a generic
  failure and that the comparisons never see a \<open>NULL\<close> code. The code passes the
  \<open>NULL\<close> to the first \<open>g_str_equal\<close>: on the reply below \<open>publish_done\<close> reads
  through a null pointer and resolves nothing.
\<close>

theorem publish_null_code_dereference:
  "publish_done False live_connection (Some [AmfNull, AmfObject [(''level'', AmfString ''error'')]])
     = Inl NullPointerDereference"
  by (simp add: publish_done_def publish_status_def g_str_equal_def)

lemma publish_done_no_code:
  assumes "1 < length args" "args ! 1 = AmfObject members"
    "case map_of members ''code'' of None \<Rightarrow> True | Some n \<Rightarrow> gst_amf_node_get_type n \<noteq> GST_AMF_TYPE_STRING"
  shows "publish_done False connection (Some args) = Inl NullPointerDereference"
  using assms by (auto simp: publish_done_def publish_status_no_code)

section \<open>Cancellation\<close>

lemma cancelled_error_matches:
  "g_error_matches (Some cancelled_error) G_IO_ERROR G_IO_ERROR_CANCELLED"
  "\<not> g_error_matches (Some cancelled_error) G_IO_ERROR G_IO_ERROR_PERMISSION_DENIED"
  "\<not> g_error_matches (Some cancelled_error) G_IO_ERROR G_IO_ERROR_CONNECTION_REFUSED"
  by (simp_all add: g_error_matches_def cancelled_error_def)

lemma propagate_cancelled:
  "g_cancellable_is_cancelled (task_cancellable task) \<Longrightarrow>
     g_task_propagate_pointer task = (None, Some cancelled_error)"
  by (simp add: g_task_propagate_pointer_def)

lemma sink_connect_task_done_cancelled:
  "g_cancellable_is_cancelled (task_cancellable task) \<Longrightarrow>
     sink_connect_task_done rtmp2sink task =
       rtmp2sink\<lparr>sink_connect_task := False, sink_connection := None\<rparr>"
  by (simp add: sink_connect_task_done_def propagate_cancelled cancelled_error_matches)

lemma send_connect_error_cancelled:
  "g_error_matches error G_IO_ERROR G_IO_ERROR_CANCELLED \<Longrightarrow>
     send_connect_error self error = self"
  by (cases error) (simp_all add: send_connect_error_def g_error_matches_def)

lemma src_connect_task_done_cancelled:
  "g_cancellable_is_cancelled (task_cancellable task) \<Longrightarrow>
     src_errors (src_connect_task_done self task) = src_errors self
     \<and> src_connection (src_connect_task_done self task) = None"
  by (simp add: src_connect_task_done_def propagate_cancelled send_connect_error_cancelled
      cancelled_error_matches stop_task_def)

text \<open>
  C7. When the cancellable of the connect task has been cancelled, the task propagates
  the cancellation whatever it was resolved with, and \<open>connect_task_done\<close> of the sink
  and of the source post no element error and store no connection. An error that is a
  cancellation is never reported by \<open>send_connect_error\<close>. Every callback of the
  publish and of the play sequence that runs with the cancellable cancelled resolves the
  task with the cancellation.
\<close>

theorem cancellation_not_reported:
  "(g_cancellable_is_cancelled (task_cancellable task) \<longrightarrow>
       g_task_propagate_pointer task = (None, Some cancelled_error)
       \<and> sink_errors (sink_connect_task_done rtmp2sink task) = sink_errors rtmp2sink
       \<and> sink_connection (sink_connect_task_done rtmp2sink task) = None
       \<and> src_errors (src_connect_task_done self task) = src_errors self
       \<and> src_connection (src_connect_task_done self task) = None)
   \<and> (g_error_matches error G_IO_ERROR G_IO_ERROR_CANCELLED \<longrightarrow>
       send_connect_error self error = self)
   \<and> sink_client_connect_done (Inr connection) True = TaskReturn (Inl cancelled_error)
   \<and> create_stream_done True args = TaskReturn (Inl cancelled_error)
   \<and> publish_done True connection args = Inr (Inl cancelled_error)
   \<and> src_client_connect_done (Inr connection) True = SrcTaskReturn (Inl cancelled_error)
   \<and> start_play_done self True connection play_finish = (Inl cancelled_error, self)
   \<and> g_error_matches (Some cancelled_error) G_IO_ERROR G_IO_ERROR_CANCELLED"
  by (simp add: propagate_cancelled sink_connect_task_done_cancelled
      src_connect_task_done_cancelled send_connect_error_cancelled cancelled_error_matches
      sink_client_connect_done_def create_stream_done_def publish_done_def
      src_client_connect_done_def start_play_done_def)

theorem cancellation_not_reported_witness:
  "g_cancellable_is_cancelled (task_cancellable cancelled_task)
   \<and> g_error_matches (Some cancelled_error) G_IO_ERROR G_IO_ERROR_CANCELLED
   \<and> g_task_propagate_pointer cancelled_task = (None, Some cancelled_error)
   \<and> sink_errors (sink_connect_task_done gst_rtmp2_sink_init cancelled_task)
       = sink_errors gst_rtmp2_sink_init
   \<and> src_errors (src_connect_task_done gst_rtmp2_src_init cancelled_task)
       = src_errors gst_rtmp2_src_init
   \<and> send_connect_error gst_rtmp2_src_init (Some cancelled_error) = gst_rtmp2_src_init"
proof -
  have c: "g_cancellable_is_cancelled (task_cancellable cancelled_task)"
    by (simp add: cancelled_task_def g_cancellable_is_cancelled_def)
  show ?thesis
    using c cancellation_not_reported [where task = cancelled_task
      and rtmp2sink = gst_rtmp2_sink_init and self = gst_rtmp2_src_init
      and error = "Some cancelled_error"]
    by simp
qed

section \<open>The source\<close>

lemma got_message_no_meta:
  "buf_meta buffer = None \<Longrightarrow> got_message self buffer = (Returns NoMeta, self)"
  by (simp add: got_message_def)

lemma got_message_mismatch:
  "buf_meta buffer = Some meta \<Longrightarrow> meta_mstream meta \<noteq> src_stream_id self \<Longrightarrow>
     got_message self buffer = (Returns Ignored, self)"
  by (simp add: got_message_def)

lemma got_message_wrong_type:
  "buf_meta buffer = Some meta \<Longrightarrow> min_size_of_type (meta_type meta) = None \<Longrightarrow>
     got_message self buffer = (Returns Ignored, self)"
  by (simp add: got_message_def)

lemma got_message_too_small:
  "buf_meta buffer = Some meta \<Longrightarrow> min_size_of_type (meta_type meta) = Some min_size \<Longrightarrow>
     meta_size meta < min_size \<Longrightarrow> got_message self buffer = (Returns Ignored, self)"
  by (simp add: got_message_def)

lemma got_message_slot_taken:
  assumes "buf_meta buffer = Some meta" "meta_mstream meta = src_stream_id self"
    "min_size_of_type (meta_type meta) = Some min_size" "\<not> meta_size meta < min_size"
    "src_message self = Some pending"
  shows "got_message self buffer = (if src_running self then Waits else Returns Stopped, self)"
  using assms by (simp add: got_message_def)

lemma got_message_handed_over:
  assumes "buf_meta buffer = Some meta" "meta_mstream meta = src_stream_id self"
    "min_size_of_type (meta_type meta) = Some min_size" "\<not> meta_size meta < min_size"
    "src_message self = None"
  shows "got_message self buffer = (Returns HandedOver, self\<lparr>src_message := Some buffer\<rparr>)"
  using assms by (simp add: got_message_def)

lemma got_message_cases:
  "got_message self buffer = (Returns HandedOver, self\<lparr>src_message := Some buffer\<rparr>)
   \<or> (\<exists>r. r \<noteq> Returns HandedOver \<and> got_message self buffer = (r, self))"
proof (cases "buf_meta buffer")
  case None
  from got_message_no_meta [OF this] show ?thesis by blast
next
  case meta: (Some meta)
  show ?thesis
  proof (cases "meta_mstream meta \<noteq> src_stream_id self")
    case True
    from got_message_mismatch [OF meta this] show ?thesis by blast
  next
    case False
    then have stream: "meta_mstream meta = src_stream_id self" by simp
    show ?thesis
    proof (cases "min_size_of_type (meta_type meta)")
      case None
      from got_message_wrong_type [OF meta this] show ?thesis by blast
    next
      case min: (Some min_size)
      show ?thesis
      proof (cases "meta_size meta < min_size")
        case True
        from got_message_too_small [OF meta min this] show ?thesis by blast
      next
        case size: False
        show ?thesis
        proof (cases "src_message self")
          case None
          from got_message_handed_over [OF meta stream min size this] show ?thesis by blast
        next
          case (Some pending)
          have "(if src_running self then Waits else Returns Stopped) \<noteq> Returns HandedOver"
            by simp
          with got_message_slot_taken [OF meta stream min size Some] show ?thesis by blast
        qed
      qed
    qed
  qed
qed


lemma got_message_handed:
  assumes "buf_meta buffer = Some meta"
    and "fst (got_message self buffer) = Returns HandedOver"
  shows "meta_mstream meta = src_stream_id self"
proof (rule ccontr)
  assume "meta_mstream meta \<noteq> src_stream_id self"
  from got_message_mismatch [OF assms(1) this] assms(2) show False by simp
qed

text \<open>
  C6. An inbound message is handed over to \<open>gst_rtmp2_src_create\<close> only if its
  message-stream id is the stream id of the source, and then the slot is the only thing
  that changes. A message that is not handed over leaves the source as it was; one on
  another message stream is ignored, with no element error posted.
\<close>

theorem mismatched_stream_dropped:
  assumes "buf_meta buffer = Some meta"
  shows "(fst (got_message self buffer) = Returns HandedOver \<longrightarrow>
            meta_mstream meta = src_stream_id self
            \<and> snd (got_message self buffer) = self\<lparr>src_message := Some buffer\<rparr>)
    \<and> (fst (got_message self buffer) \<noteq> Returns HandedOver \<longrightarrow>
            snd (got_message self buffer) = self)
    \<and> (meta_mstream meta \<noteq> src_stream_id self \<longrightarrow>
            got_message self buffer = (Returns Ignored, self))"
proof -
  from got_message_cases [of self buffer] consider
      (handed) "got_message self buffer = (Returns HandedOver, self\<lparr>src_message := Some buffer\<rparr>)"
    | (other) r where "r \<noteq> Returns HandedOver" "got_message self buffer = (r, self)"
    by blast
  then show ?thesis
  proof cases
    case handed
    then have "fst (got_message self buffer) = Returns HandedOver" by simp
    from got_message_handed [OF assms this] handed show ?thesis by simp
  next
    case other
    with got_message_mismatch [OF assms, of self] show ?thesis by simp
  qed
qed

lemma min_size_audio: "min_size_of_type GST_RTMP_MESSAGE_TYPE_AUDIO = Some 2"
  by (simp add: min_size_of_type_def GST_RTMP_MESSAGE_TYPE_AUDIO_def GST_RTMP_MESSAGE_TYPE_VIDEO_def)

theorem mismatched_stream_dropped_witness:
  "buf_meta (audio_message 2)
     = Some \<lparr>meta_cstream = 5, meta_mstream = 2,
              meta_type = GST_RTMP_MESSAGE_TYPE_AUDIO, meta_size = 3\<rparr>
   \<and> got_message (gst_rtmp2_src_init\<lparr>src_stream_id := 1\<rparr>) (audio_message 2)
       = (Returns Ignored, gst_rtmp2_src_init\<lparr>src_stream_id := 1\<rparr>)
   \<and> fst (got_message (gst_rtmp2_src_init\<lparr>src_stream_id := 2\<rparr>) (audio_message 2))
       = Returns HandedOver
   \<and> snd (got_message (gst_rtmp2_src_init\<lparr>src_stream_id := 2\<rparr>) (audio_message 2))
       = gst_rtmp2_src_init\<lparr>src_stream_id := 2, src_message := Some (audio_message 2)\<rparr>"
proof -
  have m: "buf_meta (audio_message 2)
     = Some \<lparr>meta_cstream = 5, meta_mstream = 2,
              meta_type = GST_RTMP_MESSAGE_TYPE_AUDIO, meta_size = 3\<rparr>"
    by (simp add: audio_message_def)
  have h: "fst (got_message (gst_rtmp2_src_init\<lparr>src_stream_id := 2\<rparr>) (audio_message 2))
             = Returns HandedOver"
    by (simp add: got_message_def m min_size_audio gst_rtmp2_src_init_def)
  have n: "meta_mstream \<lparr>meta_cstream = 5, meta_mstream = 2,
              meta_type = GST_RTMP_MESSAGE_TYPE_AUDIO, meta_size = 3\<rparr>
            \<noteq> src_stream_id (gst_rtmp2_src_init\<lparr>src_stream_id := 1\<rparr>)"
    by simp
  show ?thesis
    using m h n mismatched_stream_dropped [OF m, of "gst_rtmp2_src_init\<lparr>src_stream_id := 1\<rparr>"]
      mismatched_stream_dropped [OF m, of "gst_rtmp2_src_init\<lparr>src_stream_id := 2\<rparr>"]
    by blast
qed

lemma got_message_fst_cong:
  assumes "src_message s = None" "src_message s' = None" "src_stream_id s = src_stream_id s'"
  shows "fst (got_message s b) = fst (got_message s' b)"
  using assms by (simp add: got_message_def split: option.split)

lemma got_message_handed_meta:
  assumes "fst (got_message self buffer) = Returns HandedOver"
  shows "buf_meta buffer \<noteq> None"
proof
  assume "buf_meta buffer = None"
  from got_message_no_meta [OF this, of self] assms show False by simp
qed

lemma create_emits:
  assumes "src_message self = Some message" "buf_meta message = Some meta"
  shows "\<exists>out self'. gst_rtmp2_src_create self = (Returns GST_FLOW_OK, Some out, self')
           \<and> buf_data out = (if src_sent_header self then [] else flv_header_data) @ flv_tag message
           \<and> src_sent_header self' \<and> src_message self' = None
           \<and> src_stream_id self' = src_stream_id self"
  using assms
  by (simp add: gst_rtmp2_src_create_def Let_def flv_tag_def gst_buffer_prepend_memory_def
      gst_buffer_append_memory_def gst_buffer_copy_memory_def)

lemma play_all_skip:
  assumes "fst (got_message self buffer) \<noteq> Returns HandedOver"
  shows "play_all self (buffer # rest) = play_all self rest"
proof -
  from got_message_cases [of self buffer] assms
  obtain r where "r \<noteq> Returns HandedOver" "got_message self buffer = (r, self)"
    by auto
  then show ?thesis
    by (cases r) (auto split: got_message_outcome.splits blocking.splits)
qed

lemma play_all_emit:
  assumes "fst (got_message self buffer) = Returns HandedOver" "src_message self = None"
  shows "\<exists>out self'. play_all self (buffer # rest) = out # play_all self' rest
           \<and> buf_data out = (if src_sent_header self then [] else flv_header_data) @ flv_tag buffer
           \<and> src_sent_header self' \<and> src_message self' = None
           \<and> src_stream_id self' = src_stream_id self"
proof -
  from got_message_cases [of self buffer] assms(1)
  have g: "got_message self buffer = (Returns HandedOver, self\<lparr>src_message := Some buffer\<rparr>)"
    by auto
  from got_message_handed_meta [OF assms(1)] obtain meta where m: "buf_meta buffer = Some meta"
    by auto
  have "src_message (self\<lparr>src_message := Some buffer\<rparr>) = Some buffer" by simp
  from create_emits [OF this m] obtain out self' where
    c: "gst_rtmp2_src_create (self\<lparr>src_message := Some buffer\<rparr>) = (Returns GST_FLOW_OK, Some out, self')"
    and d: "buf_data out = (if src_sent_header self then [] else flv_header_data) @ flv_tag buffer"
    and i: "src_sent_header self'" "src_message self' = None" "src_stream_id self' = src_stream_id self"
    by auto
  have "play_all self (buffer # rest) = out # play_all self' rest"
    by (simp add: g c)
  with d i show ?thesis by blast
qed

lemma play_all_after_header:
  "src_sent_header self \<Longrightarrow> src_message self = None \<Longrightarrow>
     map buf_data (play_all self bufs)
       = map flv_tag (filter (\<lambda>b. fst (got_message self b) = Returns HandedOver) bufs)"
proof (induction bufs arbitrary: self)
  case Nil
  then show ?case by simp
next
  case (Cons buffer rest)
  show ?case
  proof (cases "fst (got_message self buffer) = Returns HandedOver")
    case False
    with Cons.IH [OF Cons.prems] show ?thesis
      by (simp add: play_all_skip del: play_all.simps)
  next
    case True
    from play_all_emit [OF True Cons.prems(2), of rest] Cons.prems(1)
    obtain out self' where p: "play_all self (buffer # rest) = out # play_all self' rest"
      and d: "buf_data out = flv_tag buffer"
      and i: "src_sent_header self'" "src_message self' = None"
        "src_stream_id self' = src_stream_id self"
      by auto
    have "\<And>b. fst (got_message self' b) = fst (got_message self b)"
      by (rule got_message_fst_cong [OF i(2) Cons.prems(2) i(3)])
    with Cons.IH [OF i(1) i(2)] p d True show ?thesis
      by (simp del: play_all.simps)
  qed
qed


lemma play_all_before_header:
  "\<not> src_sent_header self \<Longrightarrow> src_message self = None \<Longrightarrow>
     map buf_data (play_all self bufs)
       = (case filter (\<lambda>b. fst (got_message self b) = Returns HandedOver) bufs of
            [] \<Rightarrow> []
          | m # ms \<Rightarrow> (flv_header_data @ flv_tag m) # map flv_tag ms)"
proof (induction bufs)
  case Nil
  then show ?case by simp
next
  case (Cons buffer rest)
  show ?case
  proof (cases "fst (got_message self buffer) = Returns HandedOver")
    case False
    with Cons.IH [OF Cons.prems] show ?thesis
      by (simp add: play_all_skip del: play_all.simps)
  next
    case True
    from play_all_emit [OF True Cons.prems(2), of rest] Cons.prems(1)
    obtain out self' where p: "play_all self (buffer # rest) = out # play_all self' rest"
      and d: "buf_data out = flv_header_data @ flv_tag buffer"
      and i: "src_sent_header self'" "src_message self' = None"
        "src_stream_id self' = src_stream_id self"
      by auto
    have "\<And>b. fst (got_message self' b) = fst (got_message self b)"
      by (rule got_message_fst_cong [OF i(2) Cons.prems(2) i(3)])
    with play_all_after_header [OF i(1) i(2), of rest] p d True show ?thesis
      by (simp del: play_all.simps)
  qed
qed

lemma handed_tag_type:
  assumes "fst (got_message self buffer) = Returns HandedOver"
  shows "take 3 (flv_tag buffer) \<noteq> flv_signature"
proof -
  from got_message_handed_meta [OF assms] obtain meta where m: "buf_meta buffer = Some meta"
    by auto
  have "min_size_of_type (meta_type meta) \<noteq> None"
  proof
    assume "min_size_of_type (meta_type meta) = None"
    from got_message_wrong_type [OF m this, of self] assms show False by simp
  qed
  then have "meta_type meta \<noteq> 0x46"
    by (auto simp: min_size_of_type_def GST_RTMP_MESSAGE_TYPE_VIDEO_def
        GST_RTMP_MESSAGE_TYPE_AUDIO_def GST_RTMP_MESSAGE_TYPE_DATA_AMF0_def split: if_splits)
  then show ?thesis
    by (simp add: flv_tag_def m tag_header_def flv_signature_def)
qed

text \<open>
  C9. After \<open>gst_rtmp2_src_start\<close>, with the slot empty and the stream id assigned,
  the buffers given to the host are: the 13 bytes of the FLV header and the tag of the
  first message handed over, then the tag alone of each later one. None of the later
  buffers begins with the FLV signature.
\<close>

theorem flv_header_prepended_once:
  assumes "src_message s0 = None"
  shows "map buf_data (play_all ((gst_rtmp2_src_start fresh s0)\<lparr>src_stream_id := sid\<rparr>) bufs)
       = (case filter (\<lambda>b. fst (got_message ((gst_rtmp2_src_start fresh s0)\<lparr>src_stream_id := sid\<rparr>) b)
                           = Returns HandedOver) bufs of
            [] \<Rightarrow> []
          | m # ms \<Rightarrow> (flv_header_data @ flv_tag m) # map flv_tag ms)
    \<and> length flv_header_data = 13
    \<and> (\<forall>out \<in> set (tl (play_all ((gst_rtmp2_src_start fresh s0)\<lparr>src_stream_id := sid\<rparr>) bufs)).
          take 3 (buf_data out) \<noteq> flv_signature)"
proof -
  define self where "self = (gst_rtmp2_src_start fresh s0)\<lparr>src_stream_id := sid\<rparr>"
  define handed where "handed = filter (\<lambda>b. fst (got_message self b) = Returns HandedOver) bufs"
  have n: "\<not> src_sent_header self" and e: "src_message self = None"
    using assms by (simp_all add: self_def gst_rtmp2_src_start_def)
  have eq: "map buf_data (play_all self bufs)
       = (case handed of [] \<Rightarrow> [] | m # ms \<Rightarrow> (flv_header_data @ flv_tag m) # map flv_tag ms)"
    unfolding handed_def by (rule play_all_before_header [OF n e])
  have later: "\<forall>out \<in> set (tl (play_all self bufs)). take 3 (buf_data out) \<noteq> flv_signature"
  proof
    fix out
    assume o: "out \<in> set (tl (play_all self bufs))"
    then have "buf_data out \<in> set (tl (map buf_data (play_all self bufs)))"
      by (simp add: map_tl [symmetric])
    with eq obtain m ms where h: "handed = m # ms" and "buf_data out \<in> set (map flv_tag ms)"
      by (cases handed) auto
    then obtain b where b: "b \<in> set ms" and t: "buf_data out = flv_tag b"
      by auto
    from b h have "b \<in> set handed" by simp
    then have "fst (got_message self b) = Returns HandedOver"
      by (simp add: handed_def)
    from handed_tag_type [OF this] t show "take 3 (buf_data out) \<noteq> flv_signature"
      by simp
  qed
  have len: "length flv_header_data = 13"
    by (simp add: flv_header_data_def)
  from eq later len show ?thesis
    unfolding self_def handed_def by blast
qed

lemma flv_tag_audio:
  "flv_tag (audio_message 1) =
     [0x08, 0x00, 0x00, 0x03, 0x00, 0x00, 0x28, 0x00, 0x00, 0x00, 0x00,
      0xaf, 0x01, 0x21, 0x00, 0x00, 0x00, 0x0e]"
  by (simp add: flv_tag_def audio_message_def tag_header_def tag_footer_def tag_timestamp_def
      GST_WRITE_UINT24_BE_def GST_WRITE_UINT32_BE_def GST_MSECOND_def GST_CLOCK_TIME_NONE_def
      GST_RTMP_MESSAGE_TYPE_AUDIO_def)

theorem flv_header_prepended_once_witness:
  "src_message gst_rtmp2_src_init = None
   \<and> map buf_data (play_all ((gst_rtmp2_src_start 0 gst_rtmp2_src_init)\<lparr>src_stream_id := 1\<rparr>)
                      [audio_message 1, audio_message 2, audio_message 1])
       = [flv_header_data @ flv_tag (audio_message 1), flv_tag (audio_message 1)]
   \<and> flv_tag (audio_message 1) =
       [0x08, 0x00, 0x00, 0x03, 0x00, 0x00, 0x28, 0x00, 0x00, 0x00, 0x00,
        0xaf, 0x01, 0x21, 0x00, 0x00, 0x00, 0x0e]"
proof -
  let ?self = "(gst_rtmp2_src_start 0 gst_rtmp2_src_init)\<lparr>src_stream_id := 1\<rparr>"
  have h: "src_message gst_rtmp2_src_init = None"
    by (simp add: gst_rtmp2_src_init_def)
  have e: "src_message ?self = None" "src_stream_id ?self = 1"
    by (simp_all add: gst_rtmp2_src_start_def gst_rtmp2_src_init_def)
  have g1: "fst (got_message ?self (audio_message 1)) = Returns HandedOver"
    by (simp add: got_message_def e audio_message_def min_size_audio)
  have g2: "fst (got_message ?self (audio_message 2)) \<noteq> Returns HandedOver"
    by (simp add: got_message_def e audio_message_def)
  have f: "filter (\<lambda>b. fst (got_message ?self b) = Returns HandedOver)
             [audio_message 1, audio_message 2, audio_message 1]
           = [audio_message 1, audio_message 1]"
    using g1 g2 by simp
  show ?thesis
    using h flv_tag_audio flv_header_prepended_once [OF h, where fresh = 0 and sid = 1
        and bufs = "[audio_message 1, audio_message 2, audio_message 1]"]
    unfolding f by (simp del: play_all.simps)
qed

end
